theory Spec2Isabelle
  imports Main "HOL-Library.Char_ord" "HOL-Library.List_Lexorder"
begin

section \<open>Python strings\<close>

text \<open>
  Strings are byte strings (\<open>char list\<close>); the text handled by repo-merger.py (git
  output, branch names, commands) is taken to be ASCII. The functions below are the
  \<open>str\<close> methods the script calls.
\<close>

definition py_isspace :: "char \<Rightarrow> bool" where
  "py_isspace c = (c \<in> set [CHR 0x09, CHR 0x0A, CHR 0x0B, CHR 0x0C, CHR 0x0D,
                              CHR 0x1C, CHR 0x1D, CHR 0x1E, CHR 0x1F, CHR 0x20])"

definition strip :: "string \<Rightarrow> string" where
  "strip s = rev (dropWhile py_isspace (rev (dropWhile py_isspace s)))"

definition is_linebreak :: "char \<Rightarrow> bool" where
  "is_linebreak c = (c \<in> set [CHR 0x0A, CHR 0x0B, CHR 0x0C, CHR 0x0D, CHR 0x1C, CHR 0x1D, CHR 0x1E])"

text \<open>\<open>str.splitlines()\<close>: CR LF counts as one break; no empty last line.\<close>

fun splitlines_from :: "string \<Rightarrow> string \<Rightarrow> string list" where
  "splitlines_from cur [] = (if cur = [] then [] else [rev cur])"
| "splitlines_from cur [c] =
     (if is_linebreak c then [rev cur] else [rev (c # cur)])"
| "splitlines_from cur (c # d # cs) =
     (if c = CHR 0x0D \<and> d = CHR 0x0A then rev cur # splitlines_from [] cs
      else if is_linebreak c then rev cur # splitlines_from [] (d # cs)
      else splitlines_from (c # cur) (d # cs))"

definition splitlines :: "string \<Rightarrow> string list" where
  "splitlines s = splitlines_from [] s"

text \<open>\<open>s.split(sep)\<close> for a one-character separator: never the empty list.\<close>

fun py_split :: "char \<Rightarrow> string \<Rightarrow> string list" where
  "py_split sep [] = [[]]"
| "py_split sep (c # cs) =
     (if c = sep then [] # py_split sep cs
      else (case py_split sep cs of
              [] \<Rightarrow> [[c]]
            | x # xs \<Rightarrow> (c # x) # xs))"

text \<open>\<open>sub in s\<close> on strings.\<close>

fun contains :: "string \<Rightarrow> string \<Rightarrow> bool" where
  "contains sub [] = (sub = [])"
| "contains sub (c # cs) = (if take (length sub) (c # cs) = sub then True else contains sub cs)"

definition lower_char :: "char \<Rightarrow> char" where
  "lower_char c =
     (if CHR ''A'' \<le> c \<and> c \<le> CHR ''Z'' then char_of (of_char c + (32::nat)) else c)"

definition lower :: "string \<Rightarrow> string" where
  "lower s = map lower_char s"

section \<open>Exceptions\<close>

text \<open>
  The exceptions that occur in the script, each with its message. \<open>SystemExit\<close> is
  raised by \<open>exit(1)\<close>; it is the only one that is not a subclass of \<open>Exception\<close>,
  so \<open>except Exception\<close> lets it through.
\<close>

datatype exn =
    Exception string
  | AttributeError string
  | FileNotFoundError string
  | IndexError string
  | KeyError string
  | MarkupError string
  | EOFError
  | SystemExit int

fun is_Exception :: "exn \<Rightarrow> bool" where
  "is_Exception (SystemExit n) = False"
| "is_Exception e = True"

text \<open>\<open>str(e)\<close>; it is only applied to what \<open>except Exception as e\<close> has caught.\<close>

fun str_exn :: "exn \<Rightarrow> string" where
  "str_exn (Exception m) = m"
| "str_exn (AttributeError m) = m"
| "str_exn (FileNotFoundError m) = m"
| "str_exn (IndexError m) = m"
| "str_exn (KeyError m) = m"
| "str_exn (MarkupError m) = m"
| "str_exn EOFError = []"
| "str_exn (SystemExit n) = []"

definition quote :: string where
  "quote = [CHR 0x27]"

definition none_strip_msg :: string where
  "none_strip_msg = quote @ ''NoneType'' @ quote @ '' object has no attribute '' @ quote @ ''strip'' @ quote"

text \<open>\<open>x.strip()\<close> where \<open>x\<close> may be \<open>None\<close>.\<close>

fun strip_attr :: "string option \<Rightarrow> exn + string" where
  "strip_attr None = Inl (AttributeError none_strip_msg)"
| "strip_attr (Some s) = Inr (strip s)"

text \<open>\<open>str(n)\<close> for an integer.\<close>

definition digit_char :: "nat \<Rightarrow> char" where
  "digit_char d = ''0123456789'' ! d"

function str_nat :: "nat \<Rightarrow> string" where
  "str_nat n = (if n < 10 then [digit_char n] else str_nat (n div 10) @ [digit_char (n mod 10)])"
  by pat_completeness auto
termination
  by (relation "measure id") auto

declare str_nat.simps [simp del]

definition str_int :: "int \<Rightarrow> string" where
  "str_int i = (if i < 0 then CHR ''-'' # str_nat (nat (- i)) else str_nat (nat i))"

text \<open>\<open>xs[i]\<close>, negative indices counting from the end.\<close>

definition getitem :: "'a list \<Rightarrow> int \<Rightarrow> exn + 'a" where
  "getitem xs i =
     (let j = (if i < 0 then i + int (length xs) else i)
      in if j < 0 \<or> int (length xs) \<le> j then Inl (IndexError ''list index out of range'')
         else Inr (xs ! nat j))"

section \<open>The world the script runs in\<close>

text \<open>
  \<open>BASE_REPO_DIR\<close> and \<open>MERGE_REPO_DIR\<close> are the only directories the script names.
\<close>

datatype repo = BASE_REPO_DIR | MERGE_REPO_DIR

text \<open>
  What the script does to the outside, in order: a shell command with its working
  directory and whether its output is captured, a clone, a prompt, the removal of a
  working area. What is written to the console, the log file and the timing of
  commands are left out; that writing to the console can fail is not.
\<close>

datatype event =
    Spawn string "repo option" bool
  | Clone string repo
  | Ask string
  | Rmtree repo

text \<open>The arguments of the command line (\<open>args\<close>).\<close>

record args =
  args_verbose :: bool
  args_debug :: bool
  args_analytics :: bool
  args_retry :: bool
  args_merge_conflict_base :: bool
  args_merge_conflict_side :: bool
  args_merge_preview :: bool
  args_show_diff :: bool
  args_smart :: bool
  args_y :: bool
  args_base_branch :: "string option"

text \<open>A finished child process as the operating system reports it.\<close>

record proc =
  exit_code :: int
  out_text :: string
  err_text :: string

text \<open>
  The external collaborators: \<open>sh\<close> runs a shell command in a directory, \<open>git_clone\<close>
  clones a URL into a working area and gives the exit status; both may change the
  external state \<open>'x\<close> (remote repositories, the contents of the working areas).
  \<open>markup_error\<close> is the markup renderer of the rich library, which every \<open>print\<close>,
  \<open>console.print\<close> and \<open>console.log\<close> of the script goes through: the message of the
  \<open>MarkupError\<close> it raises on a text, if it raises one.
  \<open>getcwd\<close> is the directory the script is started in, \<open>GITMERGE_BASE\<close> and
  \<open>GITMERGE_MERGE\<close> are the environment variables.
\<close>

record 'x system =
  sh :: "string \<Rightarrow> repo option \<Rightarrow> 'x \<Rightarrow> proc \<times> 'x"
  git_clone :: "string \<Rightarrow> repo \<Rightarrow> 'x \<Rightarrow> int \<times> 'x"
  markup_error :: "string \<Rightarrow> string option"
  getcwd :: string
  GITMERGE_BASE :: "string option"
  GITMERGE_MERGE :: "string option"

text \<open>
  The state: which working areas exist on disk, the lines the operator will type,
  the \<open>ANALYTICS\<close> list (command and success; the duration is left out), the events
  so far, the exit status of every command that \<open>run_cmd\<close> has run, and the external
  state.
\<close>

record 'x world =
  dir_exists :: "repo \<Rightarrow> bool"
  stdin :: "string list"
  ANALYTICS :: "(string \<times> bool) list"
  trace :: "event list"
  exits :: "(string \<times> int) list"
  ext :: 'x

type_synonym ('a, 'x) io = "'x world \<Rightarrow> (exn + 'a) \<times> 'x world"

definition io_return :: "'a \<Rightarrow> ('a, 'x) io" where
  "io_return v w = (Inr v, w)"

definition io_raise :: "exn \<Rightarrow> ('a, 'x) io" where
  "io_raise e w = (Inl e, w)"

definition io_bind :: "('a, 'x) io \<Rightarrow> ('a \<Rightarrow> ('b, 'x) io) \<Rightarrow> ('b, 'x) io" where
  "io_bind m f w = (case m w of (Inl e, w1) \<Rightarrow> (Inl e, w1) | (Inr v, w1) \<Rightarrow> f v w1)"

text \<open>\<open>try: m  except Exception as e: h e\<close>\<close>

definition io_try :: "('a, 'x) io \<Rightarrow> (exn \<Rightarrow> ('a, 'x) io) \<Rightarrow> ('a, 'x) io" where
  "io_try m h w =
     (case m w of
        (Inl e, w1) \<Rightarrow> if is_Exception e then h e w1 else (Inl e, w1)
      | (Inr v, w1) \<Rightarrow> (Inr v, w1))"

definition io_lift :: "exn + 'a \<Rightarrow> ('a, 'x) io" where
  "io_lift r w = (r, w)"

definition repo_path :: "'x system \<Rightarrow> repo \<Rightarrow> string" where
  "repo_path sys r =
     (case r of BASE_REPO_DIR \<Rightarrow> getcwd sys @ ''/base_repo''
              | MERGE_REPO_DIR \<Rightarrow> getcwd sys @ ''/merge_repo'')"

section \<open>Console output\<close>

text \<open>
  \<open>print\<close> (imported from rich), \<open>console.print\<close> and \<open>console.log\<close> read their text as
  markup. A tag in square brackets that opens a style changes the look only, but a
  closing tag (one that starts with \<open>[/\<close>) that closes nothing makes the call raise
  \<open>MarkupError\<close>; a text with no closing tag is always printed.
\<close>

definition render_error :: "'x system \<Rightarrow> string \<Rightarrow> string option" where
  "render_error sys text = (if contains ''[/'' text then markup_error sys text else None)"

definition rich_print :: "'x system \<Rightarrow> string \<Rightarrow> (unit, 'x) io" where
  "rich_print sys text w =
     (case render_error sys text of
        None \<Rightarrow> (Inr (), w)
      | Some m \<Rightarrow> (Inl (MarkupError m), w))"

text \<open>Printing a table renders its cells, column after column, and then its title.\<close>

fun render_all :: "'x system \<Rightarrow> string list \<Rightarrow> (unit, 'x) io" where
  "render_all sys [] = io_return ()"
| "render_all sys (t # ts) = io_bind (rich_print sys t) (\<lambda>_. render_all sys ts)"

section \<open>run_cmd\<close>

text \<open>
  \<open>subprocess.run(cmd, cwd=cwd, shell=True, capture_output=capture, text=True)\<close>:
  a missing working directory raises \<open>FileNotFoundError\<close> before anything runs;
  without capture the result's \<open>stdout\<close> and \<open>stderr\<close> are \<open>None\<close>.
\<close>

record completed =
  returncode :: int
  stdout :: "string option"
  stderr :: "string option"

definition cwd_missing :: "'x world \<Rightarrow> repo option \<Rightarrow> bool" where
  "cwd_missing w cwd = (case cwd of None \<Rightarrow> False | Some r \<Rightarrow> \<not> dir_exists w r)"

definition no_such_dir_msg :: "'x system \<Rightarrow> repo option \<Rightarrow> string" where
  "no_such_dir_msg sys cwd =
     ''[Errno 2] No such file or directory: '' @ quote
       @ (case cwd of None \<Rightarrow> [] | Some r \<Rightarrow> repo_path sys r) @ quote"

definition subprocess_run :: "'x system \<Rightarrow> string \<Rightarrow> repo option \<Rightarrow> bool \<Rightarrow> (completed, 'x) io" where
  "subprocess_run sys cmd cwd capture w =
     (if cwd_missing w cwd then (Inl (FileNotFoundError (no_such_dir_msg sys cwd)), w)
      else
        (let (p, x1) = sh sys cmd cwd (ext w);
             w1 = w\<lparr>ext := x1, trace := trace w @ [Spawn cmd cwd capture],
                    exits := exits w @ [(cmd, exit_code p)]\<rparr>
         in (Inr \<lparr>returncode = exit_code p,
                  stdout = (if capture then Some (out_text p) else None),
                  stderr = (if capture then Some (err_text p) else None)\<rparr>, w1)))"

definition record_analytics :: "args \<Rightarrow> string \<Rightarrow> bool \<Rightarrow> (unit, 'x) io" where
  "record_analytics a cmd ok w =
     (if args_analytics a then (Inr (), w\<lparr>ANALYTICS := ANALYTICS w @ [(cmd, ok)]\<rparr>)
      else (Inr (), w))"

definition run_cmd :: "'x system \<Rightarrow> args \<Rightarrow> string \<Rightarrow> repo option \<Rightarrow> bool \<Rightarrow> (string, 'x) io" where
  "run_cmd sys a cmd cwd live_output =
     io_bind (subprocess_run sys cmd cwd (\<not> live_output)) (\<lambda>result.
     let output = (if \<not> live_output then stdout result else Some []) in
     io_bind (record_analytics a cmd (returncode result = 0)) (\<lambda>_.
     io_bind (if args_debug a then
                io_bind (rich_print sys (''[DEBUG] Command: '' @ cmd)) (\<lambda>_.
                io_bind (rich_print sys (''[DEBUG] Exit Code: '' @ str_int (returncode result))) (\<lambda>_.
                io_bind (io_lift (strip_attr output)) (\<lambda>shown.
                rich_print sys (''[DEBUG] Output: '' @ shown))))
              else io_return ()) (\<lambda>_.
     if returncode result \<noteq> 0 then
       io_bind (io_lift (strip_attr (stderr result))) (\<lambda>err.
       io_bind (rich_print sys (''[red]Error: '' @ err @ ''[/red]'')) (\<lambda>_.
       io_raise (Exception (''Command failed: '' @ cmd))))
     else io_lift (strip_attr output))))"

text \<open>The world after a command has run: the event, the external state, the analytics entry.\<close>

definition spawned :: "args \<Rightarrow> string \<Rightarrow> repo option \<Rightarrow> bool \<Rightarrow> proc \<Rightarrow> 'x \<Rightarrow> 'x world \<Rightarrow> 'x world" where
  "spawned a cmd cwd live p x1 w =
     (let w1 = w\<lparr>ext := x1, trace := trace w @ [Spawn cmd cwd (\<not> live)],
                   exits := exits w @ [(cmd, exit_code p)]\<rparr>
      in if args_analytics a then w1\<lparr>ANALYTICS := ANALYTICS w1 @ [(cmd, exit_code p = 0)]\<rparr> else w1)"

section \<open>Working areas\<close>

text \<open>
  \<open>shutil.rmtree(repo, onerror=onerror)\<close>: the handler makes a path writable and
  repeats the failed removal, and the tree is taken to be gone afterwards.
\<close>

definition rmtree :: "repo \<Rightarrow> 'x world \<Rightarrow> 'x world" where
  "rmtree r w = w\<lparr>dir_exists := (dir_exists w)(r := False), trace := trace w @ [Rmtree r]\<rparr>"

fun cleanup_loop :: "repo list \<Rightarrow> 'x world \<Rightarrow> 'x world" where
  "cleanup_loop [] w = w"
| "cleanup_loop (r # rs) w = cleanup_loop rs (if dir_exists w r then rmtree r w else w)"

definition cleanup :: "'x world \<Rightarrow> 'x world" where
  "cleanup w = cleanup_loop [BASE_REPO_DIR, MERGE_REPO_DIR] w"

text \<open>
  \<open>clone_repo\<close> gives the exit status of \<open>git clone\<close> and raises nothing. A clone
  that exits with 0 has created its target; one that fails leaves the disk as it was.
\<close>

definition clone_repo :: "'x system \<Rightarrow> string \<Rightarrow> repo \<Rightarrow> (int, 'x) io" where
  "clone_repo sys url target w =
     (let (rc, x1) = git_clone sys url target (ext w)
      in (Inr rc, w\<lparr>dir_exists := (if rc = 0 then (dir_exists w)(target := True) else dir_exists w),
                     ext := x1, trace := trace w @ [Clone url target]\<rparr>))"

section \<open>Branches\<close>

definition branch_of_line :: "string \<Rightarrow> exn + string" where
  "branch_of_line line = getitem (py_split CHR ''/'' (strip line)) (- 1)"

definition is_pointer_line :: "string \<Rightarrow> bool" where
  "is_pointer_line line = (if contains ''->'' line then True else contains ''HEAD'' line)"

fun collect :: "('a \<Rightarrow> exn + 'b) \<Rightarrow> 'a list \<Rightarrow> exn + 'b list" where
  "collect f [] = Inr []"
| "collect f (x # xs) =
     (case f x of
        Inl e \<Rightarrow> Inl e
      | Inr y \<Rightarrow> (case collect f xs of Inl e \<Rightarrow> Inl e | Inr ys \<Rightarrow> Inr (y # ys)))"

definition list_branches :: "'x system \<Rightarrow> args \<Rightarrow> repo \<Rightarrow> (string list, 'x) io" where
  "list_branches sys a repo_dir =
     io_bind (run_cmd sys a ''git branch -r'' (Some repo_dir) False) (\<lambda>raw.
     io_bind (io_lift (collect branch_of_line
                         (filter (\<lambda>line. \<not> is_pointer_line line) (splitlines raw)))) (\<lambda>branches.
     io_return (sort (remdups branches))))"

text \<open>The names \<open>list_branches\<close> takes from the output, before sorting.\<close>

definition branch_names :: "string \<Rightarrow> string list" where
  "branch_names raw =
     map (\<lambda>line. last (py_split CHR ''/'' (strip line)))
       (filter (\<lambda>line. \<not> is_pointer_line line) (splitlines raw))"

text \<open>
  The loop of \<open>get_head_branch\<close> returns in its first round whatever the line is, so
  only the first line of the output is looked at.
\<close>

definition head_of_output :: "string \<Rightarrow> exn + string option" where
  "head_of_output output =
     (case splitlines output of
        [] \<Rightarrow> Inr None
      | line # _ \<Rightarrow>
          if contains ''HEAD branch:'' line
          then (case getitem (py_split CHR '':'' line) 1 of
                  Inl e \<Rightarrow> Inl e
                | Inr s \<Rightarrow> Inr (Some (strip s)))
          else Inr None)"

definition get_head_branch :: "'x system \<Rightarrow> args \<Rightarrow> repo \<Rightarrow> (string option, 'x) io" where
  "get_head_branch sys a repo_dir =
     io_try
       (io_bind (run_cmd sys a ''git remote show origin'' (Some repo_dir) False) (\<lambda>output.
        io_lift (head_of_output output)))
       (\<lambda>e. io_return (Some ''main''))"

definition filter_repo_to_subdir :: "'x system \<Rightarrow> args \<Rightarrow> repo \<Rightarrow> string \<Rightarrow> (unit, 'x) io" where
  "filter_repo_to_subdir sys a repo_dir' subdir' =
     io_try
       (io_bind (run_cmd sys a (''git-filter-repo --to-subdirectory-filter '' @ subdir' @ '' --force'')
                   (Some repo_dir') False) (\<lambda>_.
        io_return ()))
       (\<lambda>e. io_bind (rich_print sys (str_exn e)) (\<lambda>_. io_raise (SystemExit 1)))"

definition date_cmd :: "string \<Rightarrow> string" where
  "date_cmd b = ''git log origin/'' @ b @ '' -1 --format=%ci''"

fun get_commit_dates_loop ::
  "'x system \<Rightarrow> args \<Rightarrow> repo \<Rightarrow> string list \<Rightarrow> (string \<rightharpoonup> string) \<Rightarrow> (string \<rightharpoonup> string, 'x) io" where
  "get_commit_dates_loop sys a repo_dir [] results = io_return results"
| "get_commit_dates_loop sys a repo_dir (b # bs) results =
     io_bind
       (io_try
          (io_bind (run_cmd sys a (date_cmd b) (Some repo_dir) False) (\<lambda>date.
           io_return (results(b \<mapsto> date))))
          (\<lambda>e. io_return (results(b \<mapsto> ''N/A''))))
       (get_commit_dates_loop sys a repo_dir bs)"

definition get_commit_dates ::
  "'x system \<Rightarrow> args \<Rightarrow> repo \<Rightarrow> string list \<Rightarrow> (string \<rightharpoonup> string, 'x) io" where
  "get_commit_dates sys a repo_dir branches =
     get_commit_dates_loop sys a repo_dir branches Map.empty"

text \<open>The entry of a branch, from the outcome of its lookup.\<close>

definition date_entry :: "exn + string \<Rightarrow> string" where
  "date_entry r = (case r of Inl e \<Rightarrow> ''N/A'' | Inr d \<Rightarrow> d)"

section \<open>Prompts\<close>

text \<open>
  \<open>Prompt.ask\<close> of the rich library, reading the operator's lines: an empty line
  gives the default when there is one; a line that is not among the choices is asked
  again; the end of the input raises \<open>EOFError\<close>.
\<close>

fun read_answer :: "string list option \<Rightarrow> string option \<Rightarrow> string list \<Rightarrow> (exn + string) \<times> string list" where
  "read_answer choices dflt [] = (Inl EOFError, [])"
| "read_answer choices dflt (l # ls) =
     (if l = [] \<and> dflt \<noteq> None then (Inr (the dflt), ls)
      else (case choices of
              None \<Rightarrow> (Inr (strip l), ls)
            | Some cs \<Rightarrow> if strip l \<in> set cs then (Inr (strip l), ls)
                         else read_answer choices dflt ls))"

definition Prompt_ask :: "string \<Rightarrow> string list option \<Rightarrow> string option \<Rightarrow> (string, 'x) io" where
  "Prompt_ask text choices dflt w =
     (let (r, rest) = read_answer choices dflt (stdin w)
      in (r, w\<lparr>stdin := rest, trace := trace w @ [Ask text]\<rparr>))"

text \<open>The rows of the table, \<open>dates[b]\<close> for every branch, and the printing of it.\<close>

definition table_rows :: "string list \<Rightarrow> (string \<rightharpoonup> string) \<Rightarrow> exn + (string \<times> string) list" where
  "table_rows branches dates =
     collect (\<lambda>b. case dates b of None \<Rightarrow> Inl (KeyError b) | Some d \<Rightarrow> Inr (b, d)) branches"

definition print_table :: "'x system \<Rightarrow> (string \<times> string) list \<Rightarrow> (unit, 'x) io" where
  "print_table sys rows =
     render_all sys ([''Branch''] @ map fst rows @ [''Last Commit Date''] @ map snd rows
                     @ [''Available Branches''])"

definition default_branch :: "string option \<Rightarrow> string list \<Rightarrow> exn + string" where
  "default_branch head branches =
     (case head of
        None \<Rightarrow> getitem branches 0
      | Some h \<Rightarrow> if h \<in> set branches then Inr h else getitem branches 0)"

definition choose_branch :: "'x system \<Rightarrow> args \<Rightarrow> repo \<Rightarrow> (string, 'x) io" where
  "choose_branch sys a repo_dir =
     io_bind (list_branches sys a repo_dir) (\<lambda>branches.
     io_bind (get_head_branch sys a repo_dir) (\<lambda>head.
     io_bind (get_commit_dates sys a repo_dir branches) (\<lambda>dates.
     io_bind (io_lift (table_rows branches dates)) (\<lambda>rows.
     io_bind (print_table sys rows) (\<lambda>_.
     io_bind (io_lift (default_branch head branches)) (\<lambda>dflt.
     Prompt_ask ''Select branch to merge'' (Some branches) (Some dflt)))))))"

section \<open>The merge\<close>

text \<open>
  \<open>open_dir\<close> opens a file browser on Windows only and has no part in the control flow;
  it is left out.
\<close>

definition strategy_flag :: "string option \<Rightarrow> string" where
  "strategy_flag conflict_strategy =
     (if conflict_strategy = Some ''base'' then ''-X ours''
      else if conflict_strategy = Some ''side'' then ''-X theirs''
      else [])"

definition base_merge_cmd :: "string option \<Rightarrow> string" where
  "base_merge_cmd conflict_strategy =
     ''git merge merge_repo/HEAD --allow-unrelated-histories '' @ strategy_flag conflict_strategy"

definition conflict_notice :: "string \<Rightarrow> string" where
  "conflict_notice subdir' =
     ''[yellow]Merge conflict occurred while merging into '' @ quote @ subdir' @ quote @ ''[/yellow]''"

definition on_merge_failure ::
  "'x system \<Rightarrow> args \<Rightarrow> string \<Rightarrow> string option \<Rightarrow> exn \<Rightarrow> (unit, 'x) io" where
  "on_merge_failure sys a subdir' conflict_strategy e =
     (if contains ''unrelated histories'' (lower (str_exn e)) then
        io_bind (run_cmd sys a (strip (base_merge_cmd conflict_strategy)) (Some BASE_REPO_DIR) True) (\<lambda>_.
        io_return ())
      else
        io_bind (rich_print sys (conflict_notice subdir')) (\<lambda>_.
        if args_merge_conflict_side a then
          io_bind (run_cmd sys a ''git merge --strategy=recursive -X theirs merge_repo/HEAD''
                     (Some BASE_REPO_DIR) True) (\<lambda>_.
          io_return ())
        else if args_merge_conflict_base a then
          io_bind (run_cmd sys a ''git merge --strategy=recursive -X ours merge_repo/HEAD''
                     (Some BASE_REPO_DIR) True) (\<lambda>_.
          io_return ())
        else if args_y a then io_return ()
        else
          io_bind (Prompt_ask (''Resolve conflicts in subdir '' @ quote @ ''{subdir_}'' @ quote
                                 @ '' then press Enter'') None None) (\<lambda>_.
          io_return ())))"

definition offer_diff :: "'x system \<Rightarrow> args \<Rightarrow> (unit, 'x) io" where
  "offer_diff sys a =
     (if args_show_diff a then
        io_bind (Prompt_ask ''Show diff before merge?'' (Some [''yes'', ''no'']) None) (\<lambda>answer.
        if answer = ''yes'' then
          io_bind (run_cmd sys a ''git diff HEAD merge_repo/HEAD'' (Some BASE_REPO_DIR) True) (\<lambda>_.
          io_return ())
        else io_return ())
      else io_return ())"

text \<open>The \<open>try\<close> statement around the merge command, with its \<open>except\<close> branch.\<close>

definition attempt_merge :: "'x system \<Rightarrow> args \<Rightarrow> string \<Rightarrow> string option \<Rightarrow> (unit, 'x) io" where
  "attempt_merge sys a subdir' conflict_strategy =
     io_try
       (io_bind (run_cmd sys a (strip (base_merge_cmd conflict_strategy)) (Some BASE_REPO_DIR) True) (\<lambda>_.
        io_return ()))
       (on_merge_failure sys a subdir' conflict_strategy)"

definition perform_merge :: "'x system \<Rightarrow> args \<Rightarrow> string \<Rightarrow> string \<Rightarrow> string option \<Rightarrow> (unit, 'x) io" where
  "perform_merge sys a base_branch' subdir' conflict_strategy =
     io_bind (run_cmd sys a (''git checkout '' @ base_branch') (Some BASE_REPO_DIR) False) (\<lambda>_.
     io_bind (run_cmd sys a ''git remote add merge_repo ../merge_repo'' (Some BASE_REPO_DIR) False) (\<lambda>_.
     io_bind (run_cmd sys a ''git fetch merge_repo'' (Some BASE_REPO_DIR) False) (\<lambda>_.
     if args_merge_preview a then
       io_bind (run_cmd sys a ''git log --graph --oneline --all'' (Some BASE_REPO_DIR) False) (\<lambda>_.
       io_bind (run_cmd sys a ''git ls-tree -r HEAD'' (Some BASE_REPO_DIR) False) (\<lambda>_.
       io_return ()))
     else
       io_bind (offer_diff sys a) (\<lambda>_.
       attempt_merge sys a subdir' conflict_strategy))))"

definition show_git_stat :: "'x system \<Rightarrow> args \<Rightarrow> (unit, 'x) io" where
  "show_git_stat sys a =
     (if args_verbose a then
        io_bind (rich_print sys ''[bold blue]Merge Summary:[/bold blue]'') (\<lambda>_.
        io_bind (run_cmd sys a ''git diff --stat'' (Some BASE_REPO_DIR) True) (\<lambda>_.
        io_return ()))
      else io_return ())"

text \<open>
  The table of \<open>print_analytics\<close> has the commands in its first column; the cells of
  the other columns are numbers and marks, which hold no tag.
\<close>

definition print_analytics :: "'x system \<Rightarrow> args \<Rightarrow> (unit, 'x) io" where
  "print_analytics sys a w =
     (if \<not> args_analytics a then (Inr (), w)
      else render_all sys ([''Command''] @ map fst (ANALYTICS w)
                           @ [''Time (s)'', ''Success'', ''Analytics'']) w)"

section \<open>The session\<close>

text \<open>Python's truth value of an optional string: \<open>None\<close> and the empty string are false.\<close>

definition truthy :: "string option \<Rightarrow> bool" where
  "truthy s = (case s of None \<Rightarrow> False | Some v \<Rightarrow> v \<noteq> [])"

definition conflict_strategy_of :: "args \<Rightarrow> string option" where
  "conflict_strategy_of a =
     (if args_merge_conflict_base a then Some ''base''
      else if args_merge_conflict_side a then Some ''side''
      else None)"

text \<open>
  The body of the \<open>try\<close> block; it ends by setting \<open>SUCCESS\<close>. What comes before it
  (parsing the arguments, the test of the two conflict flags, \<open>check_deps\<close>) and the
  handler of the interrupt signal are not modelled.
\<close>

definition session_body :: "'x system \<Rightarrow> args \<Rightarrow> (unit, 'x) io" where
  "session_body sys a =
     io_bind (\<lambda>w. (Inr (), if \<not> args_retry a then cleanup w else w)) (\<lambda>_.
     io_bind (if \<not> truthy (GITMERGE_BASE sys) then Prompt_ask ''Base repo URL'' None None
              else io_return (the (GITMERGE_BASE sys))) (\<lambda>base_url.
     io_bind (if \<not> truthy (GITMERGE_MERGE sys) then Prompt_ask ''Repo to merge in'' None None
              else io_return (the (GITMERGE_MERGE sys))) (\<lambda>merge_url.
     io_bind (if \<not> args_y a then Prompt_ask ''Subdirectory to move merged code into'' None None
              else io_return ''merged_content'') (\<lambda>subdir.
     io_bind (clone_repo sys base_url BASE_REPO_DIR) (\<lambda>_.
     io_bind (clone_repo sys merge_url MERGE_REPO_DIR) (\<lambda>_.
     io_bind (choose_branch sys a MERGE_REPO_DIR) (\<lambda>merge_branch.
     io_bind (run_cmd sys a (''git checkout '' @ merge_branch) (Some MERGE_REPO_DIR) False) (\<lambda>_.
     io_bind (filter_repo_to_subdir sys a MERGE_REPO_DIR subdir) (\<lambda>_.
     io_bind (if truthy (args_base_branch a) then io_return (the (args_base_branch a))
              else Prompt_ask ''Target branch to merge into'' None (Some ''main'')) (\<lambda>base_branch.
     io_bind (perform_merge sys a base_branch subdir (conflict_strategy_of a)) (\<lambda>_.
     io_bind (show_git_stat sys a) (\<lambda>_.
     io_bind (Prompt_ask ''Push to origin?'' (Some [''yes'', ''no'']) (Some ''no'')) (\<lambda>answer.
     io_bind (if answer = ''yes'' then
                io_bind (run_cmd sys a ''git push origin HEAD'' (Some BASE_REPO_DIR) False) (\<lambda>_.
                io_return ())
              else io_return ()) (\<lambda>_.
     print_analytics sys a))))))))))))))"

text \<open>\<open>try: ... finally: if not SUCCESS: cleanup()\<close>\<close>

definition session :: "'x system \<Rightarrow> args \<Rightarrow> (unit, 'x) io" where
  "session sys a w =
     (case session_body sys a w of
        (Inr u, w1) \<Rightarrow> (Inr u, w1)
      | (Inl e, w1) \<Rightarrow> (Inl e, cleanup w1))"

text \<open>The steps of the session that follow the two clones.\<close>

definition after_clones :: "'x system \<Rightarrow> args \<Rightarrow> string \<Rightarrow> (unit, 'x) io" where
  "after_clones sys a subdir =
     io_bind (choose_branch sys a MERGE_REPO_DIR) (\<lambda>merge_branch.
     io_bind (run_cmd sys a (''git checkout '' @ merge_branch) (Some MERGE_REPO_DIR) False) (\<lambda>_.
     io_bind (filter_repo_to_subdir sys a MERGE_REPO_DIR subdir) (\<lambda>_.
     io_bind (if truthy (args_base_branch a) then io_return (the (args_base_branch a))
              else Prompt_ask ''Target branch to merge into'' None (Some ''main'')) (\<lambda>base_branch.
     io_bind (perform_merge sys a base_branch subdir (conflict_strategy_of a)) (\<lambda>_.
     io_bind (show_git_stat sys a) (\<lambda>_.
     io_bind (Prompt_ask ''Push to origin?'' (Some [''yes'', ''no'']) (Some ''no'')) (\<lambda>answer.
     io_bind (if answer = ''yes'' then
                io_bind (run_cmd sys a ''git push origin HEAD'' (Some BASE_REPO_DIR) False) (\<lambda>_.
                io_return ())
              else io_return ()) (\<lambda>_.
     print_analytics sys a))))))))"

text \<open>A step that neither creates nor removes a working area.\<close>

definition keeps_dirs :: "('a, 'x) io \<Rightarrow> bool" where
  "keeps_dirs m = (\<forall>w. dir_exists (snd (m w)) = dir_exists w)"

text \<open>A step that can only succeed where the working area \<open>r\<close> exists.\<close>

definition needs_dir :: "repo \<Rightarrow> ('a, 'x) io \<Rightarrow> bool" where
  "needs_dir r m = (\<forall>w. isl (fst (m w)) \<or> dir_exists w r)"

text \<open>The console can print what \<open>run_cmd\<close> logs about a command and its result.\<close>

definition logs_render :: "'x system \<Rightarrow> args \<Rightarrow> string \<Rightarrow> bool \<Rightarrow> proc \<Rightarrow> bool" where
  "logs_render sys a cmd live p =
     ((if args_debug a
       then render_error sys (''[DEBUG] Command: '' @ cmd) = None \<and>
            render_error sys (''[DEBUG] Output: '' @ (if live then [] else strip (out_text p))) = None
       else True) \<and>
      (if exit_code p \<noteq> 0 \<and> \<not> live
       then render_error sys (''[red]Error: '' @ strip (err_text p) @ ''[/red]'') = None
       else True))"

text \<open>
  The commands whose failure the script recovers from: the query for the default
  branch, the lookups of the dates, and the merge command of the first attempt.
\<close>

definition recovered_command :: "string \<Rightarrow> bool" where
  "recovered_command cmd =
     (if cmd = ''git remote show origin'' then True
      else if take 15 cmd = ''git log origin/'' then True
      else cmd \<in> set [''git merge merge_repo/HEAD --allow-unrelated-histories'',
                      ''git merge merge_repo/HEAD --allow-unrelated-histories -X ours'',
                      ''git merge merge_repo/HEAD --allow-unrelated-histories -X theirs''])"

text \<open>The commands of a log that exited non-zero and are not among those.\<close>

definition unrecovered :: "(string \<times> int) list \<Rightarrow> (string \<times> int) list" where
  "unrecovered es = filter (\<lambda>(cmd, rc). rc \<noteq> 0 \<and> \<not> recovered_command cmd) es"

text \<open>A step that fails whenever one of its commands does so without being recovered.\<close>

definition propagates :: "('a, 'x) io \<Rightarrow> bool" where
  "propagates m =
     (\<forall>w. \<exists>new. exits (snd (m w)) = exits w @ new \<and> (unrecovered new = [] \<or> isl (fst (m w))))"

text \<open>A step none of whose commands does so.\<close>

definition harmless :: "('a, 'x) io \<Rightarrow> bool" where
  "harmless m = (\<forall>w. \<exists>new. exits (snd (m w)) = exits w @ new \<and> unrecovered new = [])"

text \<open>The texts of the prompts among the events.\<close>

fun asked :: "event list \<Rightarrow> string list" where
  "asked [] = []"
| "asked (Ask t # es) = t # asked es"
| "asked (e # es) = asked es"

section \<open>Scripted collaborators\<close>

text \<open>
  Concrete systems for the examples: the answer of a command depends on its text only,
  every clone succeeds, and both URLs come from the environment.
\<close>

definition respond :: "int \<Rightarrow> string \<Rightarrow> string \<Rightarrow> proc" where
  "respond rc out err = \<lparr>exit_code = rc, out_text = out, err_text = err\<rparr>"

definition scripted_sh :: "(string \<Rightarrow> proc) \<Rightarrow> string \<Rightarrow> repo option \<Rightarrow> unit \<Rightarrow> proc \<times> unit" where
  "scripted_sh f cmd cwd x = (f cmd, x)"

definition clone_ok :: "string \<Rightarrow> repo \<Rightarrow> unit \<Rightarrow> int \<times> unit" where
  "clone_ok url target x = (0, x)"

text \<open>
  The console of the examples, after rich's markup: a tag is an opening bracket, one of
  the characters a to z, \<open>#\<close>, \<open>/\<close> and \<open>@\<close>, and what follows up to the next closing
  bracket with no opening bracket between; an odd number of backslashes before it makes
  it plain text. A closing tag takes the nearest open tag of its name from the stack
  (\<open>[/]\<close> the top one); the names are compared as they are written.
\<close>

definition backslash :: char where
  "backslash = CHR 0x5C"

definition is_tag_start :: "char \<Rightarrow> bool" where
  "is_tag_start c = (if CHR ''a'' \<le> c \<and> c \<le> CHR ''z'' then True else c \<in> set ''#/@'')"

definition tag_name :: "string \<Rightarrow> string" where
  "tag_name t = takeWhile (\<lambda>c. c \<noteq> CHR ''='') t"

definition close_tag :: "nat \<Rightarrow> string \<Rightarrow> string list \<Rightarrow> string + string list" where
  "close_tag pos t stack =
     (let style_name = strip (tl (tag_name t))
      in if style_name = [] then
           (case stack of
              [] \<Rightarrow> Inl (''closing tag '' @ quote @ ''[/]'' @ quote @ '' at position '' @ str_nat pos
                          @ '' has nothing to close'')
            | opened # rest \<Rightarrow> Inr rest)
         else if style_name \<in> set stack then Inr (remove1 style_name stack)
         else Inl (''closing tag '' @ quote @ ''['' @ t @ '']'' @ quote @ '' at position '' @ str_nat pos
                   @ '' doesn'' @ quote @ ''t match any open tag''))"

datatype scan_state = Outside nat | Inside nat bool string

fun rich_scan :: "nat \<Rightarrow> scan_state \<Rightarrow> string list \<Rightarrow> string \<Rightarrow> string option" where
  "rich_scan pos st stack [] = None"
| "rich_scan pos (Outside bs) stack (c # cs) =
     (if c = CHR ''['' then rich_scan (Suc pos) (Inside pos (odd bs) []) stack cs
      else if c = backslash then rich_scan (Suc pos) (Outside (Suc bs)) stack cs
      else rich_scan (Suc pos) (Outside 0) stack cs)"
| "rich_scan pos (Inside start escaped acc) stack (c # cs) =
     (if c = CHR ''['' then
        rich_scan (Suc pos)
          (Inside pos (odd (length (takeWhile (\<lambda>d. d = backslash) acc))) []) stack cs
      else if acc = [] \<and> \<not> is_tag_start c then
        rich_scan (Suc pos) (Outside (if c = backslash then 1 else 0)) stack cs
      else if c = CHR '']'' then
        (if escaped then rich_scan (Suc pos) (Outside 0) stack cs
         else if hd (rev acc) = CHR ''/'' then
           (case close_tag start (rev acc) stack of
              Inl m \<Rightarrow> Some m
            | Inr stack' \<Rightarrow> rich_scan (Suc pos) (Outside 0) stack' cs)
         else rich_scan (Suc pos) (Outside 0) (tag_name (rev acc) # stack) cs)
      else rich_scan (Suc pos) (Inside start escaped (c # acc)) stack cs)"

definition rich_markup :: "string \<Rightarrow> string option" where
  "rich_markup text = rich_scan 0 (Outside 0) [] text"

definition scripted :: "(string \<Rightarrow> proc) \<Rightarrow> unit system" where
  "scripted f =
     \<lparr>sh = scripted_sh f, git_clone = clone_ok, markup_error = rich_markup, getcwd = ''/work'',
      GITMERGE_BASE = Some ''https://example.org/base.git'',
      GITMERGE_MERGE = Some ''https://example.org/incoming.git''\<rparr>"

text \<open>The same with clones that fail, as they do over a working area that is there already.\<close>

definition clone_refused :: "string \<Rightarrow> repo \<Rightarrow> unit \<Rightarrow> int \<times> unit" where
  "clone_refused url target x = (128, x)"

definition scripted_no_clone :: "(string \<Rightarrow> proc) \<Rightarrow> unit system" where
  "scripted_no_clone f = (scripted f)\<lparr>git_clone := clone_refused\<rparr>"

definition no_dirs :: "repo \<Rightarrow> bool" where
  "no_dirs r = False"

definition both_dirs :: "repo \<Rightarrow> bool" where
  "both_dirs r = True"

definition fresh :: "string list \<Rightarrow> unit world" where
  "fresh answers =
     \<lparr>dir_exists = no_dirs, stdin = answers, ANALYTICS = [], trace = [], exits = [], ext = ()\<rparr>"

definition cloned :: "string list \<Rightarrow> unit world" where
  "cloned answers =
     \<lparr>dir_exists = both_dirs, stdin = answers, ANALYTICS = [], trace = [], exits = [], ext = ()\<rparr>"

definition no_flags :: args where
  "no_flags =
     \<lparr>args_verbose = False, args_debug = False, args_analytics = False, args_retry = False,
      args_merge_conflict_base = False, args_merge_conflict_side = False,
      args_merge_preview = False, args_show_diff = False, args_smart = False, args_y = False,
      args_base_branch = None\<rparr>"

definition remote_listing :: string where
  "remote_listing =
     ''  origin/HEAD -> origin/main\<newline>  origin/main\<newline>  origin/dev\<newline>  upstream/main''"

definition remote_show :: string where
  "remote_show =
     ''* remote origin\<newline>  Fetch URL: https://example.org/incoming.git\<newline>  HEAD branch: main''"

definition main_date :: string where
  "main_date = ''2024-05-01 10:00:00 +0000''"

text \<open>Every command succeeds.\<close>

definition git_healthy :: "string \<Rightarrow> proc" where
  "git_healthy cmd =
     (if cmd = ''git branch -r'' then respond 0 remote_listing []
      else if cmd = ''git remote show origin'' then respond 0 remote_show []
      else if cmd = date_cmd ''main'' then respond 0 main_date []
      else if cmd = date_cmd ''dev'' then respond 0 ''2024-04-30 09:00:00 +0000'' []
      else respond 0 [] [])"

text \<open>The date of \<open>dev\<close> cannot be read.\<close>

definition git_dev_unreadable :: "string \<Rightarrow> proc" where
  "git_dev_unreadable cmd =
     (if cmd = date_cmd ''dev'' then respond 128 [] ''fatal: bad revision''
      else git_healthy cmd)"

text \<open>The query for the remote's default branch fails.\<close>

definition git_remote_silent :: "string \<Rightarrow> proc" where
  "git_remote_silent cmd =
     (if cmd = ''git remote show origin'' then respond 128 [] ''fatal: unable to access remote''
      else git_healthy cmd)"

text \<open>Every \<open>git merge\<close> is refused for want of a common ancestor.\<close>

definition git_merge_refused :: "string \<Rightarrow> proc" where
  "git_merge_refused cmd =
     (if take 9 cmd = ''git merge'' then respond 128 [] ''fatal: refusing to merge unrelated histories''
      else git_healthy cmd)"

text \<open>The first merge stops on conflicts and the merge with a forced side succeeds.\<close>

definition git_conflict_once :: "string \<Rightarrow> proc" where
  "git_conflict_once cmd =
     (if take 30 cmd = ''git merge --strategy=recursive'' then respond 0 [] []
      else if take 9 cmd = ''git merge'' then respond 1 [] ''CONFLICT (content): vendor/shared.txt''
      else git_healthy cmd)"

text \<open>Every \<open>git merge\<close> stops on conflicts.\<close>

definition git_conflict_always :: "string \<Rightarrow> proc" where
  "git_conflict_always cmd =
     (if take 9 cmd = ''git merge'' then respond 1 [] ''CONFLICT (content): vendor/shared.txt''
      else git_healthy cmd)"

text \<open>The push is rejected.\<close>

definition git_push_rejected :: "string \<Rightarrow> proc" where
  "git_push_rejected cmd =
     (if cmd = ''git push origin HEAD'' then respond 1 [] ''error: failed to push some refs''
      else git_healthy cmd)"

text \<open>\<open>git fetch\<close> fails, with one exit status or another.\<close>

definition git_fetch_fails :: "int \<Rightarrow> string \<Rightarrow> string \<Rightarrow> proc" where
  "git_fetch_fails rc err cmd =
     (if cmd = ''git fetch merge_repo'' then respond rc [] err else git_healthy cmd)"

text \<open>Branch names with a slash, and one with the letters of \<open>HEAD\<close> in it.\<close>

definition nested_listing :: string where
  "nested_listing =
     ''  origin/HEAD -> origin/main\<newline>  origin/main\<newline>  origin/feature/login\<newline>  origin/bugfix/login\<newline>  origin/AHEAD-of-time''"

definition git_nested_names :: "string \<Rightarrow> proc" where
  "git_nested_names cmd =
     (if cmd = ''git branch -r'' then respond 0 nested_listing [] else git_healthy cmd)"

text \<open>The remote has the branches dev and main and its default branch is ambiguous.\<close>

definition ambiguous_show :: string where
  "ambiguous_show =
     ''* remote origin\<newline>  Fetch URL: https://example.org/incoming.git\<newline>  HEAD branch (remote HEAD is ambiguous, may be one of the following):\<newline>    dev\<newline>    main''"

definition git_head_ambiguous :: "string \<Rightarrow> proc" where
  "git_head_ambiguous cmd =
     (if cmd = ''git remote show origin'' then respond 0 ambiguous_show [] else git_healthy cmd)"

text \<open>The remote has the branches dev and trunk only, and the query for its default fails.\<close>

definition git_trunk_silent :: "string \<Rightarrow> proc" where
  "git_trunk_silent cmd =
     (if cmd = ''git branch -r'' then respond 0 ''  origin/dev\<newline>  origin/trunk'' []
      else if cmd = ''git remote show origin'' then respond 128 [] ''fatal: unable to access remote''
      else respond 0 [] [])"

text \<open>\<open>git checkout\<close> of a name that is no branch.\<close>

definition git_checkout_unknown :: "string \<Rightarrow> proc" where
  "git_checkout_unknown cmd =
     (if take 12 cmd = ''git checkout''
      then respond 1 [] (''error: pathspec '' @ quote @ drop 13 cmd @ quote
                          @ '' did not match any file(s) known to git'')
      else git_healthy cmd)"

text \<open>The default branch is advertised on the first line of the answer.\<close>

definition git_head_first :: "string \<Rightarrow> proc" where
  "git_head_first cmd =
     (if cmd = ''git remote show origin''
      then respond 0 ''  HEAD branch: trunk\<newline>  Remote branches:\<newline>    trunk tracked'' []
      else git_healthy cmd)"

text \<open>Every command succeeds and prints nothing.\<close>

definition git_empty :: "string \<Rightarrow> proc" where
  "git_empty cmd = respond 0 [] []"

text \<open>
  The command lines \<open>-y\<close>, \<open>-y --base-branch main\<close>, \<open>--merge-conflict-side\<close>,
  \<open>-y --base-branch main --retry\<close> and \<open>--debug\<close>.
\<close>

definition flags_y :: args where
  "flags_y = no_flags\<lparr>args_y := True\<rparr>"

definition flags_y_main :: args where
  "flags_y_main = no_flags\<lparr>args_y := True, args_base_branch := Some ''main''\<rparr>"

definition flags_side :: args where
  "flags_side = no_flags\<lparr>args_merge_conflict_side := True\<rparr>"

definition flags_retry :: args where
  "flags_retry = no_flags\<lparr>args_y := True, args_base_branch := Some ''main'', args_retry := True\<rparr>"

definition flags_debug :: args where
  "flags_debug = no_flags\<lparr>args_debug := True\<rparr>"

section \<open>Properties\<close>

subsection \<open>Strings\<close>

lemmas io_defs = io_bind_def io_return_def io_raise_def io_try_def io_lift_def

lemma strip_Nil: "strip [] = []"
  by (simp add: strip_def)

lemma py_split_nonempty: "py_split sep s \<noteq> []"
  by (induction s) (auto split: list.splits)

lemma getitem_last: "xs \<noteq> [] \<Longrightarrow> getitem xs (- 1) = Inr (last xs)"
  by (cases xs rule: rev_cases) (auto simp: getitem_def Let_def nth_append)

lemma getitem_first: "getitem (x # xs) 0 = Inr x"
  by (simp add: getitem_def)

lemma getitem_Nil: "getitem [] 0 = Inl (IndexError ''list index out of range'')"
  by (simp add: getitem_def)

lemma getitem_second: "2 \<le> length xs \<Longrightarrow> getitem xs 1 = Inr (xs ! 1)"
  by (simp add: getitem_def)

lemma collect_map: "(\<And>x. x \<in> set xs \<Longrightarrow> f x = Inr (g x)) \<Longrightarrow> collect f xs = Inr (map g xs)"
  by (induction xs) auto

lemma take_eq_prefix: "take (length sub) s = sub \<longleftrightarrow> (\<exists>post. s = sub @ post)"
  by (metis append_eq_conv_conj append_take_drop_id)

lemma contains_iff: "contains sub s \<longleftrightarrow> (\<exists>pre post. s = pre @ sub @ post)"
proof (induction s)
  case Nil
  show ?case by simp
next
  case (Cons c cs)
  have "(\<exists>pre post. c # cs = pre @ sub @ post) \<longleftrightarrow>
        (\<exists>post. c # cs = sub @ post) \<or> (\<exists>pre post. cs = pre @ sub @ post)"
  proof
    assume "\<exists>pre post. c # cs = pre @ sub @ post"
    then obtain pre post where e: "c # cs = pre @ sub @ post" by blast
    show "(\<exists>post. c # cs = sub @ post) \<or> (\<exists>pre post. cs = pre @ sub @ post)"
    proof (cases pre)
      case Nil
      with e show ?thesis by auto
    next
      case (Cons d ds)
      with e have "cs = ds @ sub @ post" by simp
      then show ?thesis by blast
    qed
  next
    assume "(\<exists>post. c # cs = sub @ post) \<or> (\<exists>pre post. cs = pre @ sub @ post)"
    then show "\<exists>pre post. c # cs = pre @ sub @ post"
    proof
      assume "\<exists>post. c # cs = sub @ post"
      then obtain post where "c # cs = [] @ sub @ post" by auto
      then show ?thesis by blast
    next
      assume "\<exists>pre post. cs = pre @ sub @ post"
      then obtain pre post where "c # cs = (c # pre) @ sub @ post" by auto
      then show ?thesis by blast
    qed
  qed
  with Cons show ?case
    by (simp only: contains.simps take_eq_prefix) auto
qed

lemma contains_infix: "contains sub t \<Longrightarrow> s = pre @ t @ post \<Longrightarrow> contains sub s"
proof -
  assume "contains sub t" and s: "s = pre @ t @ post"
  then obtain p1 p2 where "t = p1 @ sub @ p2" by (auto simp: contains_iff)
  with s have "s = (pre @ p1) @ sub @ (p2 @ post)" by simp
  then show "contains sub s" unfolding contains_iff by blast
qed

lemma strip_infix: "\<exists>pre post. s = pre @ strip s @ post"
proof -
  let ?t = "dropWhile py_isspace s"
  have a: "s = takeWhile py_isspace s @ ?t" by simp
  have "rev ?t = takeWhile py_isspace (rev ?t) @ dropWhile py_isspace (rev ?t)" by simp
  then have "?t = rev (dropWhile py_isspace (rev ?t)) @ rev (takeWhile py_isspace (rev ?t))"
    by (metis rev_append rev_rev_ident)
  then have "?t = strip s @ rev (takeWhile py_isspace (rev ?t))"
    by (simp add: strip_def)
  with a show ?thesis by metis
qed

lemma last_split_only: "\<exists>pre. s = pre @ last (py_split sep s) \<and> (length (py_split sep s) = 1 \<longrightarrow> pre = [])"
proof (induction s)
  case Nil
  show ?case by simp
next
  case (Cons c cs)
  then obtain pre where p: "cs = pre @ last (py_split sep cs)"
    and q: "length (py_split sep cs) = 1 \<longrightarrow> pre = []" by blast
  obtain x xs where x: "py_split sep cs = x # xs"
    using py_split_nonempty [of sep cs] by (cases "py_split sep cs") auto
  show ?case
  proof (cases "c = sep")
    case True
    with x p have "c # cs = (c # pre) @ last (py_split sep (c # cs))" by simp
    moreover from True x have "length (py_split sep (c # cs)) \<noteq> 1" by simp
    ultimately show ?thesis by blast
  next
    case False
    show ?thesis
    proof (cases xs)
      case Nil
      with x q have "pre = []" by simp
      with p x Nil have "cs = x" by simp
      with False x Nil have "c # cs = [] @ last (py_split sep (c # cs))" by simp
      then show ?thesis by blast
    next
      case (Cons y ys)
      with False x p have "c # cs = (c # pre) @ last (py_split sep (c # cs))" by simp
      moreover from False x Cons have "length (py_split sep (c # cs)) \<noteq> 1" by simp
      ultimately show ?thesis by blast
    qed
  qed
qed

lemma last_split_suffix: "\<exists>pre. s = pre @ last (py_split sep s)"
  using last_split_only [of s sep] by blast

lemma contains_set: "contains sub s \<Longrightarrow> set sub \<subseteq> set s"
  by (auto simp: contains_iff)

lemma py_split_two: "c \<in> set s \<Longrightarrow> 2 \<le> length (py_split c s)"
proof (induction s)
  case Nil
  then show ?case by simp
next
  case (Cons d ds)
  obtain x xs where x: "py_split c ds = x # xs"
    using py_split_nonempty [of c ds] by (cases "py_split c ds") auto
  show ?case
  proof (cases "d = c")
    case True
    with x show ?thesis by simp
  next
    case False
    with Cons have "2 \<le> length (py_split c ds)" by simp
    with False x show ?thesis by simp
  qed
qed

lemma no_slash_no_closing: "CHR ''/'' \<notin> set s \<Longrightarrow> \<not> contains ''[/'' s"
  using contains_set [of "''[/''" s] by auto

lemma digit_char_no_slash: "d < 10 \<Longrightarrow> digit_char d \<noteq> CHR ''/''"
proof -
  assume "d < 10"
  then have "digit_char d \<in> set ''0123456789''"
    unfolding digit_char_def by (intro nth_mem) simp
  then show ?thesis by auto
qed

lemma str_nat_no_slash: "CHR ''/'' \<notin> set (str_nat n)"
proof (induction n rule: str_nat.induct)
  case (1 n)
  show ?case
  proof (cases "n < 10")
    case True
    then show ?thesis using digit_char_no_slash [of n] by (simp add: str_nat.simps [of n])
  next
    case False
    with 1 have "CHR ''/'' \<notin> set (str_nat (n div 10))" by simp
    moreover have "digit_char (n mod 10) \<noteq> CHR ''/''" by (rule digit_char_no_slash) simp
    ultimately show ?thesis using False by (simp add: str_nat.simps [of n])
  qed
qed

lemma str_int_no_slash: "CHR ''/'' \<notin> set (str_int i)"
  by (simp add: str_int_def str_nat_no_slash)

subsection \<open>Console output\<close>

lemma exit_code_line: "render_error sys (''[DEBUG] Exit Code: '' @ str_int i) = None"
proof -
  have "CHR ''/'' \<notin> set (''[DEBUG] Exit Code: '' @ str_int i)"
    using str_int_no_slash [of i] by simp
  then show ?thesis unfolding render_error_def using no_slash_no_closing by metis
qed

lemmas exit_code_line_simp = exit_code_line [simplified]

lemma rich_print_world: "snd (rich_print sys t w) = w"
  by (simp add: rich_print_def split: option.splits)

lemma rich_print_ok: "render_error sys t = None \<Longrightarrow> rich_print sys t w = (Inr (), w)"
  by (simp add: rich_print_def)

lemma rich_print_raises: "rich_print sys t w = (Inl e, w') \<Longrightarrow> is_Exception e"
  by (auto simp: rich_print_def split: option.splits)

lemma render_all_world: "snd (render_all sys ts w) = w"
proof (induction ts)
  case Nil
  show ?case by (simp add: io_return_def)
next
  case (Cons t ts)
  then show ?case
    by (cases "render_error sys t") (simp_all add: io_bind_def rich_print_def)
qed

lemma render_all_ok:
  "(\<And>t. t \<in> set ts \<Longrightarrow> render_error sys t = None) \<Longrightarrow> render_all sys ts w = (Inr (), w)"
  by (induction ts) (simp_all add: io_return_def io_bind_def rich_print_def)

lemma render_all_raises: "render_all sys ts w = (Inl e, w') \<Longrightarrow> is_Exception e"
proof (induction ts)
  case Nil
  then show ?case by (simp add: io_return_def)
next
  case (Cons t ts)
  then show ?case
    by (cases "render_error sys t") (auto simp: io_bind_def rich_print_def)
qed

subsection \<open>The process runner\<close>

lemma run_cmd_missing:
  "cwd_missing w cwd \<Longrightarrow>
   run_cmd sys a cmd cwd live w = (Inl (FileNotFoundError (no_such_dir_msg sys cwd)), w)"
  by (simp add: run_cmd_def subprocess_run_def io_defs)

lemma run_cmd_world:
  assumes "\<not> cwd_missing w cwd" and "sh sys cmd cwd (ext w) = (p, x1)"
  shows "snd (run_cmd sys a cmd cwd live w) = spawned a cmd cwd live p x1 w"
  using assms
  by (simp add: run_cmd_def subprocess_run_def record_analytics_def spawned_def io_defs
      rich_print_def Let_def split: option.splits)

lemma run_cmd_nonzero:
  assumes "\<not> cwd_missing w cwd" and "sh sys cmd cwd (ext w) = (p, x1)" and "exit_code p \<noteq> 0"
  shows "isl (fst (run_cmd sys a cmd cwd live w))"
  using assms
  by (simp add: run_cmd_def subprocess_run_def record_analytics_def io_defs
      rich_print_def Let_def split: option.splits)

lemma run_cmd_spawned:
  assumes "\<not> cwd_missing w cwd" and "sh sys cmd cwd (ext w) = (p, x1)"
    and "logs_render sys a cmd live p"
  shows "run_cmd sys a cmd cwd live w =
     ((if exit_code p \<noteq> 0
       then Inl (if live then AttributeError none_strip_msg else Exception (''Command failed: '' @ cmd))
       else Inr (if live then [] else strip (out_text p))),
      spawned a cmd cwd live p x1 w)"
proof -
  from assms(3) have dbg: "args_debug a \<Longrightarrow>
      render_error sys (''[DEBUG] Command: '' @ cmd) = None \<and>
      render_error sys (''[DEBUG] Output: '' @ (if live then [] else strip (out_text p))) = None"
    and err: "exit_code p \<noteq> 0 \<Longrightarrow> \<not> live \<Longrightarrow>
      render_error sys (''[red]Error: '' @ strip (err_text p) @ ''[/red]'') = None"
    by (simp_all add: logs_render_def split: if_splits)
  show ?thesis
  proof (cases "args_debug a")
    case True
    from dbg [OF True] err assms(1,2) True show ?thesis
      by (cases live; cases "exit_code p = 0")
        (simp_all add: run_cmd_def subprocess_run_def record_analytics_def spawned_def io_defs
          strip_Nil rich_print_def exit_code_line_simp Let_def)
  next
    case False
    from err assms(1,2) False show ?thesis
      by (cases live; cases "exit_code p = 0")
        (simp_all add: run_cmd_def subprocess_run_def record_analytics_def spawned_def io_defs
          strip_Nil rich_print_def Let_def)
  qed
qed

lemma run_cmd_raises_Exception:
  "run_cmd sys a cmd cwd live w = (Inl e, w') \<Longrightarrow> is_Exception e"
  by (auto simp: run_cmd_def subprocess_run_def record_analytics_def io_defs rich_print_def Let_def
      split: if_splits option.splits prod.splits)

lemma run_cmd_dirs:
  "run_cmd sys a cmd cwd live w = (r, w') \<Longrightarrow> dir_exists w' = dir_exists w"
proof (cases "cwd_missing w cwd")
  case True
  then show "run_cmd sys a cmd cwd live w = (r, w') \<Longrightarrow> dir_exists w' = dir_exists w"
    by (auto simp: run_cmd_missing)
next
  case False
  obtain p x1 where s: "sh sys cmd cwd (ext w) = (p, x1)" by (cases "sh sys cmd cwd (ext w)")
  assume "run_cmd sys a cmd cwd live w = (r, w')"
  then have "w' = spawned a cmd cwd live p x1 w"
    using run_cmd_world [OF False s, of a live] by simp
  then show "dir_exists w' = dir_exists w" by (simp add: spawned_def Let_def)
qed

lemma run_cmd_ok_dir:
  "run_cmd sys a cmd (Some r) live w = (Inr v, w') \<Longrightarrow> dir_exists w r"
  by (cases "cwd_missing w (Some r)") (auto simp: run_cmd_missing cwd_missing_def)

lemmas script_defs = scripted_def scripted_sh_def clone_ok_def respond_def git_healthy_def
  git_dev_unreadable_def git_remote_silent_def git_merge_refused_def git_conflict_once_def
  git_conflict_always_def git_fetch_fails_def git_head_first_def git_empty_def
  git_nested_names_def nested_listing_def git_head_ambiguous_def ambiguous_show_def
  git_trunk_silent_def git_checkout_unknown_def git_push_rejected_def clone_refused_def
  scripted_no_clone_def
  fresh_def cloned_def no_dirs_def both_dirs_def no_flags_def remote_listing_def remote_show_def
  main_date_def date_cmd_def rich_markup_def backslash_def is_tag_start_def tag_name_def
  close_tag_def quote_def

lemmas model_defs = io_defs run_cmd_def subprocess_run_def record_analytics_def cwd_missing_def
  strip_def py_isspace_def splitlines_def is_linebreak_def getitem_def render_error_def
  rich_print_def print_table_def
  list_branches_def branch_of_line_def is_pointer_line_def get_head_branch_def head_of_output_def
  get_commit_dates_def table_rows_def default_branch_def choose_branch_def Prompt_ask_def
  Let_def

text \<open>
  C4 (amended). For a command that is executed (its working directory exists): it is run
  once, and a failure is raised whenever its exit status is not 0. Where the console can
  print the lines that \<open>run_cmd\<close> logs, the result with streaming off and exit status 0
  is the captured standard output, trimmed; with streaming on and exit status 0 it is
  the empty string; a failure is raised only when the exit status is not 0; and with
  streaming off that failure is \<open>Exception("Command failed: " + cmd)\<close>, which carries
  the command and neither the exit status nor the error text.
\<close>

theorem run_cmd_contract:
  assumes "\<not> cwd_missing w cwd" and "sh sys cmd cwd (ext w) = (p, x1)"
  shows "(logs_render sys a cmd live p \<longrightarrow>
            (exit_code p = 0 \<and> \<not> live \<longrightarrow> fst (run_cmd sys a cmd cwd live w) = Inr (strip (out_text p))) \<and>
            (exit_code p = 0 \<and> live \<longrightarrow> fst (run_cmd sys a cmd cwd live w) = Inr []) \<and>
            (exit_code p \<noteq> 0 \<and> \<not> live \<longrightarrow>
               fst (run_cmd sys a cmd cwd live w) = Inl (Exception (''Command failed: '' @ cmd))) \<and>
            (isl (fst (run_cmd sys a cmd cwd live w)) \<longleftrightarrow> exit_code p \<noteq> 0)) \<and>
         (exit_code p \<noteq> 0 \<longrightarrow> isl (fst (run_cmd sys a cmd cwd live w))) \<and>
         trace (snd (run_cmd sys a cmd cwd live w)) = trace w @ [Spawn cmd cwd (\<not> live)]"
proof -
  have 1: "logs_render sys a cmd live p \<longrightarrow>
            (exit_code p = 0 \<and> \<not> live \<longrightarrow> fst (run_cmd sys a cmd cwd live w) = Inr (strip (out_text p))) \<and>
            (exit_code p = 0 \<and> live \<longrightarrow> fst (run_cmd sys a cmd cwd live w) = Inr []) \<and>
            (exit_code p \<noteq> 0 \<and> \<not> live \<longrightarrow>
               fst (run_cmd sys a cmd cwd live w) = Inl (Exception (''Command failed: '' @ cmd))) \<and>
            (isl (fst (run_cmd sys a cmd cwd live w)) \<longleftrightarrow> exit_code p \<noteq> 0)"
  proof
    assume l: "logs_render sys a cmd live p"
    show "(exit_code p = 0 \<and> \<not> live \<longrightarrow> fst (run_cmd sys a cmd cwd live w) = Inr (strip (out_text p))) \<and>
            (exit_code p = 0 \<and> live \<longrightarrow> fst (run_cmd sys a cmd cwd live w) = Inr []) \<and>
            (exit_code p \<noteq> 0 \<and> \<not> live \<longrightarrow>
               fst (run_cmd sys a cmd cwd live w) = Inl (Exception (''Command failed: '' @ cmd))) \<and>
            (isl (fst (run_cmd sys a cmd cwd live w)) \<longleftrightarrow> exit_code p \<noteq> 0)"
      unfolding run_cmd_spawned [OF assms l] by simp
  qed
  have 2: "exit_code p \<noteq> 0 \<longrightarrow> isl (fst (run_cmd sys a cmd cwd live w))"
    using run_cmd_nonzero [OF assms] by simp
  have 3: "trace (snd (run_cmd sys a cmd cwd live w)) = trace w @ [Spawn cmd cwd (\<not> live)]"
    by (simp add: run_cmd_world [OF assms] spawned_def Let_def)
  from 1 2 3 show ?thesis by (intro conjI)
qed

theorem run_cmd_contract_witness:
  "\<not> cwd_missing (cloned []) (Some BASE_REPO_DIR) \<and>
   logs_render (scripted git_healthy) flags_debug ''git log origin/main -1 --format=%ci'' False
     (git_healthy ''git log origin/main -1 --format=%ci'') \<and>
   fst (run_cmd (scripted git_healthy) flags_debug ''git log origin/main -1 --format=%ci''
          (Some BASE_REPO_DIR) False (cloned [])) = Inr main_date \<and>
   logs_render (scripted git_healthy) no_flags ''git diff --stat'' True (git_healthy ''git diff --stat'') \<and>
   fst (run_cmd (scripted git_healthy) no_flags ''git diff --stat'' (Some BASE_REPO_DIR) True (cloned [])) = Inr [] \<and>
   logs_render (scripted (git_fetch_fails 1 ''fatal: no route'')) no_flags ''git fetch merge_repo'' False
     (git_fetch_fails 1 ''fatal: no route'' ''git fetch merge_repo'') \<and>
   exit_code (git_fetch_fails 1 ''fatal: no route'' ''git fetch merge_repo'') \<noteq> 0 \<and>
   fst (run_cmd (scripted (git_fetch_fails 1 ''fatal: no route'')) no_flags ''git fetch merge_repo''
          (Some BASE_REPO_DIR) False (cloned [])) = Inl (Exception ''Command failed: git fetch merge_repo'')"
proof -
  have d: "\<not> cwd_missing (cloned []) (Some BASE_REPO_DIR)"
    by (simp add: cwd_missing_def cloned_def both_dirs_def)
  have s1: "sh (scripted git_healthy) ''git log origin/main -1 --format=%ci'' (Some BASE_REPO_DIR) (ext (cloned []))
      = (git_healthy ''git log origin/main -1 --format=%ci'', ())"
    by (simp add: scripted_def scripted_sh_def)
  have s2: "sh (scripted git_healthy) ''git diff --stat'' (Some BASE_REPO_DIR) (ext (cloned []))
      = (git_healthy ''git diff --stat'', ())"
    by (simp add: scripted_def scripted_sh_def)
  have s3: "sh (scripted (git_fetch_fails 1 ''fatal: no route'')) ''git fetch merge_repo'' (Some BASE_REPO_DIR) (ext (cloned []))
      = (git_fetch_fails 1 ''fatal: no route'' ''git fetch merge_repo'', ())"
    by (simp add: scripted_def scripted_sh_def)
  have l1: "logs_render (scripted git_healthy) flags_debug ''git log origin/main -1 --format=%ci'' False
     (git_healthy ''git log origin/main -1 --format=%ci'')"
    by (simp add: logs_render_def render_error_def flags_debug_def script_defs strip_def py_isspace_def)
  have l2: "logs_render (scripted git_healthy) no_flags ''git diff --stat'' True (git_healthy ''git diff --stat'')"
    by (simp add: logs_render_def render_error_def script_defs)
  have l3: "logs_render (scripted (git_fetch_fails 1 ''fatal: no route'')) no_flags ''git fetch merge_repo'' False
     (git_fetch_fails 1 ''fatal: no route'' ''git fetch merge_repo'')"
    by (simp add: logs_render_def render_error_def script_defs strip_def py_isspace_def)
  have e1: "exit_code (git_healthy ''git log origin/main -1 --format=%ci'') = 0"
    and o1: "strip (out_text (git_healthy ''git log origin/main -1 --format=%ci'')) = main_date"
    by (simp_all add: script_defs strip_def py_isspace_def)
  have e2: "exit_code (git_healthy ''git diff --stat'') = 0"
    by (simp add: script_defs)
  have e3: "exit_code (git_fetch_fails 1 ''fatal: no route'' ''git fetch merge_repo'') \<noteq> 0"
    by (simp add: script_defs)
  note t1 = run_cmd_contract [OF d s1, where a = flags_debug and live = False, THEN conjunct1, THEN mp, OF l1]
  note t2 = run_cmd_contract [OF d s2, where a = no_flags and live = True, THEN conjunct1, THEN mp, OF l2]
  note t3 = run_cmd_contract [OF d s3, where a = no_flags and live = False, THEN conjunct1, THEN mp, OF l3]
  have r1: "fst (run_cmd (scripted git_healthy) flags_debug ''git log origin/main -1 --format=%ci''
          (Some BASE_REPO_DIR) False (cloned [])) = Inr main_date"
    using t1 e1 o1 by simp
  have r2: "fst (run_cmd (scripted git_healthy) no_flags ''git diff --stat'' (Some BASE_REPO_DIR) True (cloned [])) = Inr []"
    using t2 e2 by simp
  have r3: "fst (run_cmd (scripted (git_fetch_fails 1 ''fatal: no route'')) no_flags ''git fetch merge_repo''
          (Some BASE_REPO_DIR) False (cloned [])) = Inl (Exception ''Command failed: git fetch merge_repo'')"
    using t3 e3 by simp
  show ?thesis by (intro conjI d l1 r1 l2 r2 l3 e3 r3)
qed

text \<open>
  C4 as stated fails: two runs of the same command that differ in exit status and in
  error text raise the same failure, so the failure carries neither.
\<close>

theorem run_cmd_failure_counterexample:
  "fst (run_cmd (scripted (git_fetch_fails 1 ''fatal: no route'')) no_flags ''git fetch merge_repo''
          (Some BASE_REPO_DIR) False (cloned [])) = Inl (Exception ''Command failed: git fetch merge_repo'') \<and>
   fst (run_cmd (scripted (git_fetch_fails 128 ''fatal: not a repository'')) no_flags ''git fetch merge_repo''
          (Some BASE_REPO_DIR) False (cloned [])) = Inl (Exception ''Command failed: git fetch merge_repo'')"
  by (simp add: model_defs script_defs)

text \<open>
  What the amended claim leaves out: the error text of a failed command is printed as
  markup, so for a name such as \<open>[/x]\<close> the failure raised is the console's.
\<close>

lemma run_cmd_markup_failure:
  "fst (run_cmd (scripted git_checkout_unknown) no_flags ''git checkout [/x]'' (Some BASE_REPO_DIR)
          False (cloned [])) =
     Inl (MarkupError (''closing tag '' @ quote @ ''[/x]'' @ quote @ '' at position 29 doesn''
                        @ quote @ ''t match any open tag''))"
  by (simp add: model_defs script_defs str_nat.simps digit_char_def)

subsection \<open>Cleanup\<close>

lemma cleanup_absent:
  "\<not> dir_exists w BASE_REPO_DIR \<Longrightarrow> \<not> dir_exists w MERGE_REPO_DIR \<Longrightarrow> cleanup w = w"
  by (simp add: cleanup_def)

lemma cleanup_removes: "\<not> dir_exists (cleanup w) r"
  by (cases r) (simp_all add: cleanup_def rmtree_def)

text \<open>
  C8. \<open>cleanup\<close> is idempotent: where neither working area exists it changes nothing,
  twice is the same as once, and afterwards both working areas are absent.
\<close>

theorem cleanup_idempotent:
  "(\<not> dir_exists w BASE_REPO_DIR \<and> \<not> dir_exists w MERGE_REPO_DIR \<longrightarrow> cleanup w = w) \<and>
   cleanup (cleanup w) = cleanup w \<and>
   \<not> dir_exists (cleanup w) BASE_REPO_DIR \<and> \<not> dir_exists (cleanup w) MERGE_REPO_DIR"
  by (simp add: cleanup_absent cleanup_removes)

theorem cleanup_idempotent_witness:
  "\<not> dir_exists (fresh []) BASE_REPO_DIR \<and> \<not> dir_exists (fresh []) MERGE_REPO_DIR \<and>
   cleanup (fresh []) = fresh [] \<and> cleanup (cleanup (cloned [])) = cleanup (cloned []) \<and>
   \<not> dir_exists (cleanup (cloned [])) BASE_REPO_DIR \<and> \<not> dir_exists (cleanup (cloned [])) MERGE_REPO_DIR"
  using cleanup_idempotent [of "fresh []"] cleanup_idempotent [of "cloned []"]
  by (simp add: fresh_def no_dirs_def)


subsection \<open>Listing the remote branches\<close>

lemma branch_of_line_last: "branch_of_line line = Inr (last (py_split CHR ''/'' (strip line)))"
  by (simp add: branch_of_line_def getitem_last py_split_nonempty)

lemma branch_infix: "\<exists>pre post. line = pre @ last (py_split CHR ''/'' (strip line)) @ post"
proof -
  obtain p1 p2 where a: "line = p1 @ strip line @ p2" using strip_infix by blast
  obtain q where b: "strip line = q @ last (py_split CHR ''/'' (strip line))"
    using last_split_suffix by blast
  have "line = (p1 @ q) @ last (py_split CHR ''/'' (strip line)) @ p2"
    using a b by (metis append.assoc)
  then show ?thesis by blast
qed

lemma branch_contains:
  "contains sub (last (py_split CHR ''/'' (strip line))) \<Longrightarrow> contains sub line"
  using branch_infix [of line] contains_infix by blast

lemma list_branches_eq:
  "list_branches sys a repo_dir w =
     (case run_cmd sys a ''git branch -r'' (Some repo_dir) False w of
        (Inl e, w1) \<Rightarrow> (Inl e, w1)
      | (Inr raw, w1) \<Rightarrow> (Inr (sort (remdups (branch_names raw))), w1))"
  by (simp add: list_branches_def io_bind_def io_lift_def io_return_def branch_names_def
      collect_map [where g = "\<lambda>line. last (py_split CHR ''/'' (strip line))"] branch_of_line_last
      split: prod.splits sum.splits)

lemma example_names: "sort (remdups (branch_names (strip remote_listing))) = [''dev'', ''main'']"
  by (simp add: branch_names_def remote_listing_def strip_def py_isspace_def splitlines_def
      is_linebreak_def is_pointer_line_def)


text \<open>
  What \<open>list_branches\<close> returns where \<open>git branch -r\<close> succeeds: a sorted list without
  duplicates of the last path segments of the lines that contain neither \<open>->\<close> nor
  \<open>HEAD\<close>.
\<close>

lemma list_branches_segments:
  assumes "run_cmd sys a ''git branch -r'' (Some repo_dir) False w = (Inr raw, w1)"
  shows "\<exists>bs. list_branches sys a repo_dir w = (Inr bs, w1) \<and> sorted bs \<and> distinct bs \<and>
           set bs = (\<lambda>line. last (py_split CHR ''/'' (strip line))) `
                      {line \<in> set (splitlines raw).
                         \<not> contains ''->'' line \<and> \<not> contains ''HEAD'' line} \<and>
           (\<forall>b \<in> set bs. \<not> contains ''->'' b \<and> \<not> contains ''HEAD'' b)"
proof -
  let ?bs = "sort (remdups (branch_names raw))"
  have r: "list_branches sys a repo_dir w = (Inr ?bs, w1)"
    using assms by (simp add: list_branches_eq)
  have s: "set ?bs = (\<lambda>line. last (py_split CHR ''/'' (strip line))) `
             {line \<in> set (splitlines raw). \<not> contains ''->'' line \<and> \<not> contains ''HEAD'' line}"
    by (auto simp: branch_names_def is_pointer_line_def)
  have n: "\<forall>b \<in> set ?bs. \<not> contains ''->'' b \<and> \<not> contains ''HEAD'' b"
    unfolding s using branch_contains by blast
  have "sorted ?bs" and "distinct ?bs" by simp_all
  with r s n show ?thesis by blast
qed

text \<open>The example of the specification: main, dev and main again, with a pointer line.\<close>

lemma list_branches_example:
  "fst (list_branches (scripted git_healthy) no_flags MERGE_REPO_DIR (cloned [])) = Inr [''dev'', ''main'']"
  by (simp add: model_defs script_defs)

text \<open>
  C5, the code at the failing input: the remote has the branches main, feature/login,
  bugfix/login and AHEAD-of-time besides the pointer line. The result has one entry
  \<open>login\<close>, which is the name of no branch, for the two branches that end so, and
  AHEAD-of-time is missing.
\<close>

theorem list_branches_loses_names:
  "contains ''origin/feature/login'' nested_listing \<and>
   contains ''origin/bugfix/login'' nested_listing \<and>
   contains ''origin/AHEAD-of-time'' nested_listing \<and>
   fst (list_branches (scripted git_nested_names) no_flags MERGE_REPO_DIR (cloned [])) =
     Inr [''login'', ''main'']"
  by (simp add: model_defs script_defs)

subsection \<open>Dates of the last commits\<close>

lemma loop_Cons:
  "get_commit_dates_loop sys a repo_dir (b # bs) results w =
     get_commit_dates_loop sys a repo_dir bs
       (results(b \<mapsto> date_entry (fst (run_cmd sys a (date_cmd b) (Some repo_dir) False w))))
       (snd (run_cmd sys a (date_cmd b) (Some repo_dir) False w))"
proof (cases "run_cmd sys a (date_cmd b) (Some repo_dir) False w")
  case (Pair r w1)
  show ?thesis
  proof (cases r)
    case (Inl e)
    with Pair have "is_Exception e" using run_cmd_raises_Exception by blast
    with Pair Inl show ?thesis by (simp add: io_defs date_entry_def)
  next
    case (Inr d)
    with Pair show ?thesis by (simp add: io_defs date_entry_def)
  qed
qed

lemma loop_total: "\<exists>r w'. get_commit_dates_loop sys a repo_dir bs results w = (Inr r, w')"
proof (induction bs arbitrary: results w)
  case Nil
  show ?case by (simp add: io_return_def)
next
  case (Cons b bs)
  show ?case unfolding loop_Cons by (rule Cons.IH)
qed

lemma loop_append:
  "get_commit_dates_loop sys a repo_dir xs results w = (Inr r1, w1) \<Longrightarrow>
   get_commit_dates_loop sys a repo_dir (xs @ ys) results w =
     get_commit_dates_loop sys a repo_dir ys r1 w1"
proof (induction xs arbitrary: results w)
  case Nil
  then show ?case by (simp add: io_return_def)
next
  case (Cons b bs)
  from Cons.prems show ?case
    unfolding append_Cons loop_Cons by (rule Cons.IH)
qed

lemma loop_other:
  "get_commit_dates_loop sys a repo_dir bs results w = (Inr r, w') \<Longrightarrow> b \<notin> set bs \<Longrightarrow>
   r b = results b"
proof (induction bs arbitrary: results w)
  case Nil
  then show ?case by (simp add: io_return_def)
next
  case (Cons c cs)
  from Cons.prems(1) have step:
    "get_commit_dates_loop sys a repo_dir cs
       (results(c \<mapsto> date_entry (fst (run_cmd sys a (date_cmd c) (Some repo_dir) False w))))
       (snd (run_cmd sys a (date_cmd c) (Some repo_dir) False w)) = (Inr r, w')"
    unfolding loop_Cons .
  from Cons.prems(2) have n: "b \<notin> set cs" and m: "b \<noteq> c" by auto
  from Cons.IH [OF step n] m show ?case by simp
qed

lemma loop_dom:
  "get_commit_dates_loop sys a repo_dir bs results w = (Inr r, w') \<Longrightarrow>
   dom r = dom results \<union> set bs"
proof (induction bs arbitrary: results w)
  case Nil
  then show ?case by (simp add: io_return_def)
next
  case (Cons c cs)
  from Cons.prems have
    "dom r = dom (results(c \<mapsto> date_entry (fst (run_cmd sys a (date_cmd c) (Some repo_dir) False w)))) \<union> set cs"
    unfolding loop_Cons by (rule Cons.IH)
  then show ?case by auto
qed

text \<open>
  C7. \<open>get_commit_dates\<close> always returns a mapping, with an entry for every requested
  branch; the entry of a branch is the result of its own lookup (run after the lookups
  of the branches before it), or \<open>N/A\<close> when that lookup fails, whatever happened to the
  other lookups. (For a branch listed twice the last lookup counts.)
\<close>

theorem get_commit_dates_isolated:
  "\<exists>dates w'. get_commit_dates sys a repo_dir branches w = (Inr dates, w') \<and>
     dom dates = set branches \<and>
     (\<forall>i < length branches. branches ! i \<notin> set (drop (Suc i) branches) \<longrightarrow>
        dates (branches ! i) =
          Some (case fst (run_cmd sys a (date_cmd (branches ! i)) (Some repo_dir) False
                            (snd (get_commit_dates sys a repo_dir (take i branches) w))) of
                  Inl e \<Rightarrow> ''N/A''
                | Inr d \<Rightarrow> d))"
proof -
  obtain dates w' where r: "get_commit_dates_loop sys a repo_dir branches Map.empty w = (Inr dates, w')"
    using loop_total by blast
  have d: "dom dates = set branches" using loop_dom [OF r] by simp
  have "dates (branches ! i) =
          Some (date_entry (fst (run_cmd sys a (date_cmd (branches ! i)) (Some repo_dir) False
                 (snd (get_commit_dates sys a repo_dir (take i branches) w)))))"
    if i: "i < length branches" and l: "branches ! i \<notin> set (drop (Suc i) branches)" for i
  proof -
    let ?b = "branches ! i"
    obtain r1 w1 where p: "get_commit_dates_loop sys a repo_dir (take i branches) Map.empty w = (Inr r1, w1)"
      using loop_total by blast
    have "branches = take i branches @ ?b # drop (Suc i) branches"
      using i by (simp add: id_take_nth_drop)
    then have "get_commit_dates_loop sys a repo_dir (take i branches @ ?b # drop (Suc i) branches) Map.empty w
        = (Inr dates, w')" using r by simp
    then have "get_commit_dates_loop sys a repo_dir (?b # drop (Suc i) branches) r1 w1 = (Inr dates, w')"
      using loop_append [OF p] by simp
    then have "dates ?b = (r1(?b \<mapsto> date_entry (fst (run_cmd sys a (date_cmd ?b) (Some repo_dir) False w1)))) ?b"
      unfolding loop_Cons using l by (rule loop_other)
    with p show ?thesis by (simp add: get_commit_dates_def)
  qed
  with r d show ?thesis by (auto simp: get_commit_dates_def date_entry_def)
qed

theorem get_commit_dates_isolated_witness:
  "(0::nat) < length [''dev'', ''main''] \<and> ''dev'' \<notin> set (drop (Suc 0) [''dev'', ''main'']) \<and>
   (\<exists>dates w'. get_commit_dates (scripted git_dev_unreadable) no_flags MERGE_REPO_DIR
                   [''dev'', ''main''] (cloned []) = (Inr dates, w') \<and>
      dates ''dev'' = Some ''N/A'' \<and> dates ''main'' = Some main_date)"
proof -
  let ?sys = "scripted git_dev_unreadable"
  obtain dates w' where
    r: "get_commit_dates ?sys no_flags MERGE_REPO_DIR [''dev'', ''main''] (cloned []) = (Inr dates, w')"
    and e: "\<forall>i < length [''dev'', ''main'']. [''dev'', ''main''] ! i \<notin> set (drop (Suc i) [''dev'', ''main'']) \<longrightarrow>
        dates ([''dev'', ''main''] ! i) =
          Some (case fst (run_cmd ?sys no_flags (date_cmd ([''dev'', ''main''] ! i)) (Some MERGE_REPO_DIR) False
                            (snd (get_commit_dates ?sys no_flags MERGE_REPO_DIR (take i [''dev'', ''main'']) (cloned [])))) of
                  Inl e \<Rightarrow> ''N/A''
                | Inr d \<Rightarrow> d)"
    using get_commit_dates_isolated [of ?sys no_flags MERGE_REPO_DIR "[''dev'', ''main'']" "cloned []"]
    by blast
  have f0: "fst (run_cmd ?sys no_flags (date_cmd ''dev'') (Some MERGE_REPO_DIR) False
                   (snd (get_commit_dates ?sys no_flags MERGE_REPO_DIR [] (cloned [])))) =
      Inl (Exception (''Command failed: '' @ date_cmd ''dev''))"
    by (simp add: model_defs script_defs)
  have f1: "fst (run_cmd ?sys no_flags (date_cmd ''main'') (Some MERGE_REPO_DIR) False
                   (snd (get_commit_dates ?sys no_flags MERGE_REPO_DIR [''dev''] (cloned [])))) =
      Inr main_date"
    by (simp add: model_defs script_defs)
  from e have "dates ''dev'' = Some ''N/A''"
    using f0 by (auto dest: spec [where x = 0])
  moreover from e have "dates ''main'' = Some main_date"
    using f1 by (auto dest: spec [where x = 1])
  ultimately show ?thesis using r by simp
qed

subsection \<open>The default branch\<close>

lemma head_of_output_marked:
  assumes "splitlines output = line # rest" and "contains ''HEAD branch:'' line"
  shows "head_of_output output = Inr (Some (strip (py_split CHR '':'' line ! 1)))"
proof -
  have "CHR '':'' \<in> set line" using contains_set [OF assms(2)] by auto
  then have "2 \<le> length (py_split CHR '':'' line)" by (rule py_split_two)
  then show ?thesis using assms by (simp add: head_of_output_def getitem_second)
qed

lemma head_of_output_unmarked:
  assumes "\<forall>line \<in> set (splitlines output). \<not> contains ''HEAD branch:'' line"
  shows "head_of_output output = Inr None"
  using assms by (cases "splitlines output") (simp_all add: head_of_output_def)

lemma head_of_output_total: "\<exists>h. head_of_output output = Inr h"
proof (cases "splitlines output")
  case Nil
  then show ?thesis by (simp add: head_of_output_def)
next
  case (Cons line rest)
  show ?thesis
  proof (cases "contains ''HEAD branch:'' line")
    case True
    with Cons show ?thesis using head_of_output_marked by blast
  next
    case False
    with Cons show ?thesis by (simp add: head_of_output_def)
  qed
qed

lemma get_head_branch_eq:
  "get_head_branch sys a repo_dir w =
     (case run_cmd sys a ''git remote show origin'' (Some repo_dir) False w of
        (Inl e, w1) \<Rightarrow> (Inr (Some ''main''), w1)
      | (Inr output, w1) \<Rightarrow> (head_of_output output, w1))"
proof (cases "run_cmd sys a ''git remote show origin'' (Some repo_dir) False w")
  case (Pair r w1)
  show ?thesis
  proof (cases r)
    case (Inl e)
    with Pair have "is_Exception e" using run_cmd_raises_Exception by blast
    with Pair Inl show ?thesis by (simp add: get_head_branch_def io_defs)
  next
    case (Inr outp)
    obtain h where "head_of_output outp = Inr h" using head_of_output_total by blast
    with Pair Inr show ?thesis by (simp add: get_head_branch_def io_defs)
  qed
qed

lemma get_head_branch_total: "\<exists>r w'. get_head_branch sys a repo_dir w = (Inr r, w')"
proof (cases "run_cmd sys a ''git remote show origin'' (Some repo_dir) False w")
  case (Pair r w1)
  show ?thesis
  proof (cases r)
    case (Inl e)
    with Pair show ?thesis by (simp add: get_head_branch_eq)
  next
    case (Inr outp)
    obtain h where "head_of_output outp = Inr h" using head_of_output_total by blast
    with Pair Inr show ?thesis by (simp add: get_head_branch_eq)
  qed
qed

lemma get_commit_dates_total:
  "\<exists>dates w'. get_commit_dates sys a repo_dir bs w = (Inr dates, w') \<and> dom dates = set bs"
proof -
  obtain dates w' where r: "get_commit_dates_loop sys a repo_dir bs Map.empty w = (Inr dates, w')"
    using loop_total by blast
  from loop_dom [OF r] r show ?thesis by (simp add: get_commit_dates_def)
qed

lemma table_rows_ok: "set branches \<subseteq> dom dates \<Longrightarrow> \<exists>rows. table_rows branches dates = Inr rows"
proof -
  assume s: "set branches \<subseteq> dom dates"
  have "collect (\<lambda>b. case dates b of None \<Rightarrow> Inl (KeyError b) | Some d \<Rightarrow> Inr (b, d)) branches
      = Inr (map (\<lambda>b. (b, the (dates b))) branches)"
    using s by (intro collect_map) auto
  then show ?thesis by (simp add: table_rows_def)
qed

lemma read_answer_choice:
  "read_answer (Some cs) (Some d) ls = (Inr v, rest) \<Longrightarrow> v = d \<or> v \<in> set cs"
  by (induction ls) (auto split: if_splits)

lemma default_branch_member: "default_branch h branches = Inr d \<Longrightarrow> d \<in> set branches"
  by (cases branches; cases h) (auto simp: default_branch_def getitem_first getitem_Nil split: if_splits)

lemma default_branch_Nil: "default_branch h [] = Inl (IndexError ''list index out of range'')"
  by (cases h) (simp_all add: default_branch_def getitem_Nil)


lemma print_table_world: "snd (print_table sys rows w) = w"
  unfolding print_table_def by (rule render_all_world)

lemma print_table_raises: "print_table sys rows w = (Inl e, w') \<Longrightarrow> is_Exception e"
  unfolding print_table_def by (rule render_all_raises)

lemma no_bracket_renders: "CHR ''['' \<notin> set t \<Longrightarrow> render_error sys t = None"
  using contains_set [of "''[/''" t] by (auto simp: render_error_def)

lemma print_table_empty: "print_table sys [] w = (Inr (), w)"
  unfolding print_table_def by (rule render_all_ok) (auto intro: no_bracket_renders)

lemma choose_branch_steps:
  assumes "list_branches sys a repo_dir w0 = (Inr branches, w)"
    and "get_head_branch sys a repo_dir w = (Inr r, w')"
    and "get_commit_dates sys a repo_dir branches w' = (Inr dates, w2)"
    and "table_rows branches dates = Inr rows"
    and "print_table sys rows w2 = (Inr (), w2)"
  shows "choose_branch sys a repo_dir w0 =
           io_bind (io_lift (default_branch r branches))
             (\<lambda>dflt. Prompt_ask ''Select branch to merge'' (Some branches) (Some dflt)) w2"
  using assms by (simp add: choose_branch_def io_bind_def io_lift_def)

text \<open>
  C6 (amended). \<open>get_head_branch\<close> never raises. When its command fails it returns the
  hardcoded name \<open>main\<close> itself; when no line of the output has the marker
  \<open>HEAD branch:\<close> it returns \<open>None\<close>. The fallback to the first listed branch is made by
  the caller: \<open>choose_branch\<close> offers the answer of the query as the default of its prompt
  when it is one of the listed branches, and the first listed branch when the answer is
  \<open>None\<close> or not among them.
\<close>

theorem get_head_branch_never_raises:
  "\<exists>r w'. get_head_branch sys a repo_dir w = (Inr r, w') \<and>
     (isl (fst (run_cmd sys a ''git remote show origin'' (Some repo_dir) False w)) \<longrightarrow> r = Some ''main'') \<and>
     (\<forall>outp. fst (run_cmd sys a ''git remote show origin'' (Some repo_dir) False w) = Inr outp \<and>
        (\<forall>line \<in> set (splitlines outp). \<not> contains ''HEAD branch:'' line) \<longrightarrow> r = None) \<and>
     (\<forall>w0 b bs dates w2 rows.
        list_branches sys a repo_dir w0 = (Inr (b # bs), w) \<and>
        get_commit_dates sys a repo_dir (b # bs) w' = (Inr dates, w2) \<and>
        table_rows (b # bs) dates = Inr rows \<and>
        print_table sys rows w2 = (Inr (), w2) \<longrightarrow>
        choose_branch sys a repo_dir w0 =
          Prompt_ask ''Select branch to merge'' (Some (b # bs))
            (Some (case r of None \<Rightarrow> b | Some h \<Rightarrow> if h \<in> set (b # bs) then h else b)) w2)"
proof -
  obtain r w' where g: "get_head_branch sys a repo_dir w = (Inr r, w')"
    using get_head_branch_total by blast
  have i: "isl (fst (run_cmd sys a ''git remote show origin'' (Some repo_dir) False w)) \<longrightarrow> r = Some ''main''"
    using g
    by (cases "run_cmd sys a ''git remote show origin'' (Some repo_dir) False w")
      (auto simp: get_head_branch_eq isl_def)
  have u: "\<forall>outp. fst (run_cmd sys a ''git remote show origin'' (Some repo_dir) False w) = Inr outp \<and>
        (\<forall>line \<in> set (splitlines outp). \<not> contains ''HEAD branch:'' line) \<longrightarrow> r = None"
  proof (intro allI impI)
    fix outp
    assume x: "fst (run_cmd sys a ''git remote show origin'' (Some repo_dir) False w) = Inr outp \<and>
        (\<forall>line \<in> set (splitlines outp). \<not> contains ''HEAD branch:'' line)"
    then have h: "head_of_output outp = Inr None" using head_of_output_unmarked by blast
    from x obtain w1 where "run_cmd sys a ''git remote show origin'' (Some repo_dir) False w = (Inr outp, w1)"
      by (cases "run_cmd sys a ''git remote show origin'' (Some repo_dir) False w") auto
    with g h show "r = None" by (simp add: get_head_branch_eq)
  qed
  have c: "\<forall>w0 b bs dates w2 rows.
        list_branches sys a repo_dir w0 = (Inr (b # bs), w) \<and>
        get_commit_dates sys a repo_dir (b # bs) w' = (Inr dates, w2) \<and>
        table_rows (b # bs) dates = Inr rows \<and>
        print_table sys rows w2 = (Inr (), w2) \<longrightarrow>
        choose_branch sys a repo_dir w0 =
          Prompt_ask ''Select branch to merge'' (Some (b # bs))
            (Some (case r of None \<Rightarrow> b | Some h \<Rightarrow> if h \<in> set (b # bs) then h else b)) w2"
  proof (intro allI impI)
    fix w0 b bs dates w2 rows
    assume y: "list_branches sys a repo_dir w0 = (Inr (b # bs), w) \<and>
        get_commit_dates sys a repo_dir (b # bs) w' = (Inr dates, w2) \<and>
        table_rows (b # bs) dates = Inr rows \<and>
        print_table sys rows w2 = (Inr (), w2)"
    have d: "default_branch r (b # bs) =
        Inr (case r of None \<Rightarrow> b | Some h \<Rightarrow> if h \<in> set (b # bs) then h else b)"
      by (cases r) (auto simp: default_branch_def getitem_first)
    from y have "choose_branch sys a repo_dir w0 =
        io_bind (io_lift (default_branch r (b # bs)))
          (\<lambda>dflt. Prompt_ask ''Select branch to merge'' (Some (b # bs)) (Some dflt)) w2"
      using g by (intro choose_branch_steps) auto
    then show "choose_branch sys a repo_dir w0 =
          Prompt_ask ''Select branch to merge'' (Some (b # bs))
            (Some (case r of None \<Rightarrow> b | Some h \<Rightarrow> if h \<in> set (b # bs) then h else b)) w2"
      unfolding d by (simp add: io_bind_def io_lift_def)
  qed
  show ?thesis by (intro exI [of _ r] exI [of _ w'] conjI g i u c)
qed

text \<open>
  C6 as stated fails: the query command exits with 128, so the default branch cannot be
  determined, and the query itself answers with the hardcoded name instead of \<open>None\<close>.
\<close>

theorem get_head_branch_fallback_counterexample:
  "exit_code (git_remote_silent ''git remote show origin'') = 128 \<and>
   fst (get_head_branch (scripted git_remote_silent) no_flags MERGE_REPO_DIR (cloned [])) = Inr (Some ''main'')"
  by (simp add: model_defs script_defs)

subsection \<open>Choosing a branch\<close>

lemma choose_branch_empty:
  assumes "fst (list_branches sys a repo_dir w) = Inr []"
  shows "fst (choose_branch sys a repo_dir w) = Inl (IndexError ''list index out of range'')"
proof -
  obtain w1 where l: "list_branches sys a repo_dir w = (Inr [], w1)"
    using assms by (cases "list_branches sys a repo_dir w") auto
  obtain h w2 where g: "get_head_branch sys a repo_dir w1 = (Inr h, w2)"
    using get_head_branch_total by blast
  have c: "get_commit_dates sys a repo_dir [] w2 = (Inr Map.empty, w2)"
    by (simp add: get_commit_dates_def io_return_def)
  show ?thesis
    by (simp add: choose_branch_def io_bind_def io_lift_def l g c table_rows_def print_table_empty
        default_branch_Nil)
qed

lemma choose_branch_chosen:
  assumes "fst (choose_branch sys a repo_dir w) = Inr b"
  shows "\<exists>bs. fst (list_branches sys a repo_dir w) = Inr bs \<and> bs \<noteq> [] \<and> b \<in> set bs"
proof (cases "list_branches sys a repo_dir w")
  case (Pair r w1)
  show ?thesis
  proof (cases r)
    case (Inl e)
    with Pair assms show ?thesis by (simp add: choose_branch_def io_bind_def)
  next
    case (Inr bs)
    obtain h w2 where g: "get_head_branch sys a repo_dir w1 = (Inr h, w2)"
      using get_head_branch_total by blast
    obtain dates w3 where c: "get_commit_dates sys a repo_dir bs w2 = (Inr dates, w3)"
      and d: "dom dates = set bs"
      using get_commit_dates_total by blast
    obtain rows where t: "table_rows bs dates = Inr rows"
      using table_rows_ok [of bs dates] d by auto
    obtain pr where p: "print_table sys rows w3 = (pr, w3)"
      using print_table_world [of sys rows w3] by (cases "print_table sys rows w3") auto
    show ?thesis
    proof (cases pr)
      case (Inl e)
      with Pair \<open>r = Inr bs\<close> g c t p assms show ?thesis
        by (simp add: choose_branch_def io_bind_def io_lift_def)
    next
      case printed: (Inr u)
      show ?thesis
      proof (cases "default_branch h bs")
        case (Inl e)
        with Pair \<open>r = Inr bs\<close> g c t p printed assms show ?thesis
          by (simp add: choose_branch_def io_bind_def io_lift_def)
      next
        case (Inr dflt)
        then have m: "dflt \<in> set bs" by (rule default_branch_member)
        from Pair \<open>r = Inr bs\<close> g c t p printed Inr assms
        have "fst (read_answer (Some bs) (Some dflt) (stdin w3)) = Inr b"
          by (simp add: choose_branch_def io_bind_def io_lift_def Prompt_ask_def split: prod.splits)
        then obtain rest where "read_answer (Some bs) (Some dflt) (stdin w3) = (Inr b, rest)"
          by (cases "read_answer (Some bs) (Some dflt) (stdin w3)") auto
        then have "b = dflt \<or> b \<in> set bs" by (rule read_answer_choice)
        with m have "b \<in> set bs" by auto
        with Pair \<open>r = Inr bs\<close> show ?thesis by auto
      qed
    qed
  qed
qed

text \<open>
  C10. With an empty list of remote branches \<open>choose_branch\<close> fails with an
  \<open>IndexError\<close> at \<open>branches[0]\<close>; whenever it returns a name, the list was not empty
  and the name is one of its members.
\<close>

theorem choose_branch_needs_branches:
  "(fst (list_branches sys a repo_dir w) = Inr [] \<longrightarrow>
      fst (choose_branch sys a repo_dir w) = Inl (IndexError ''list index out of range'')) \<and>
   (\<forall>b. fst (choose_branch sys a repo_dir w) = Inr b \<longrightarrow>
      (\<exists>bs. fst (list_branches sys a repo_dir w) = Inr bs \<and> bs \<noteq> [] \<and> b \<in> set bs))"
  using choose_branch_empty choose_branch_chosen by blast

lemma empty_listing: "fst (list_branches (scripted git_empty) no_flags MERGE_REPO_DIR (cloned [])) = Inr []"
  by (simp add: model_defs script_defs)

lemma healthy_choice:
  "fst (choose_branch (scripted git_healthy) no_flags MERGE_REPO_DIR (cloned [''main''])) = Inr ''main''"
  by (simp add: model_defs script_defs)

theorem choose_branch_needs_branches_witness:
  "fst (list_branches (scripted git_empty) no_flags MERGE_REPO_DIR (cloned [])) = Inr [] \<and>
   fst (choose_branch (scripted git_empty) no_flags MERGE_REPO_DIR (cloned [])) =
     Inl (IndexError ''list index out of range'') \<and>
   fst (choose_branch (scripted git_healthy) no_flags MERGE_REPO_DIR (cloned [''main''])) = Inr ''main'' \<and>
   (\<exists>bs. fst (list_branches (scripted git_healthy) no_flags MERGE_REPO_DIR (cloned [''main''])) = Inr bs \<and>
      bs \<noteq> [] \<and> ''main'' \<in> set bs)"
proof -
  note t1 = choose_branch_needs_branches [of "scripted git_empty" no_flags MERGE_REPO_DIR "cloned []"]
  note t2 = choose_branch_needs_branches [of "scripted git_healthy" no_flags MERGE_REPO_DIR "cloned [''main'']"]
  have 1: "fst (choose_branch (scripted git_empty) no_flags MERGE_REPO_DIR (cloned [])) =
     Inl (IndexError ''list index out of range'')"
    by (rule t1 [THEN conjunct1, THEN mp, OF empty_listing])
  have 2: "\<exists>bs. fst (list_branches (scripted git_healthy) no_flags MERGE_REPO_DIR (cloned [''main''])) = Inr bs \<and>
      bs \<noteq> [] \<and> ''main'' \<in> set bs"
    by (rule t2 [THEN conjunct2, THEN spec, THEN mp, OF healthy_choice])
  show ?thesis by (intro conjI empty_listing 1 healthy_choice 2)
qed

text \<open>
  The answer of a real \<open>git remote show origin\<close> starts with the line
  \<open>* remote origin\<close>; the advertised default branch on a later line is not found.
\<close>

lemma get_head_branch_first_line_only:
  "contains ''HEAD branch: main'' remote_show \<and>
   fst (get_head_branch (scripted git_healthy) no_flags MERGE_REPO_DIR (cloned [])) = Inr None"
  by (simp add: model_defs script_defs)


text \<open>The witness of the properties of the default-branch query.\<close>

lemma print_table_ok:
  "(\<And>t. t \<in> set (map fst rows @ map snd rows) \<Longrightarrow> render_error sys t = None) \<Longrightarrow>
   print_table sys rows w = (Inr (), w)"
  unfolding print_table_def
  by (rule render_all_ok) (auto intro: no_bracket_renders)

theorem get_head_branch_never_raises_witness:
  "isl (fst (run_cmd (scripted git_remote_silent) no_flags ''git remote show origin''
               (Some MERGE_REPO_DIR) False (cloned []))) \<and>
   fst (get_head_branch (scripted git_remote_silent) no_flags MERGE_REPO_DIR (cloned [])) = Inr (Some ''main'') \<and>
   fst (run_cmd (scripted git_head_ambiguous) no_flags ''git remote show origin''
          (Some MERGE_REPO_DIR) False (cloned [])) = Inr ambiguous_show \<and>
   list_all (\<lambda>line. \<not> contains ''HEAD branch:'' line) (splitlines ambiguous_show) \<and>
   fst (get_head_branch (scripted git_head_ambiguous) no_flags MERGE_REPO_DIR (cloned [])) = Inr None \<and>
   fst (list_branches (scripted git_trunk_silent) no_flags MERGE_REPO_DIR (cloned [[]])) =
     Inr [''dev'', ''trunk''] \<and>
   fst (choose_branch (scripted git_trunk_silent) no_flags MERGE_REPO_DIR (cloned [[]])) = Inr ''dev''"
proof -
  have a: "isl (fst (run_cmd (scripted git_remote_silent) no_flags ''git remote show origin''
               (Some MERGE_REPO_DIR) False (cloned [])))"
    by (simp add: model_defs script_defs)
  have 1: "fst (get_head_branch (scripted git_remote_silent) no_flags MERGE_REPO_DIR (cloned [])) = Inr (Some ''main'')"
    using get_head_branch_never_raises [of "scripted git_remote_silent" no_flags MERGE_REPO_DIR "cloned []"] a
    by auto
  have b: "fst (run_cmd (scripted git_head_ambiguous) no_flags ''git remote show origin''
          (Some MERGE_REPO_DIR) False (cloned [])) = Inr ambiguous_show"
    by (simp add: model_defs script_defs)
  have c: "list_all (\<lambda>line. \<not> contains ''HEAD branch:'' line) (splitlines ambiguous_show)"
    by (simp add: ambiguous_show_def splitlines_def is_linebreak_def)
  then have c': "\<forall>line \<in> set (splitlines ambiguous_show). \<not> contains ''HEAD branch:'' line"
    by (simp add: list_all_iff)
  have 2: "fst (get_head_branch (scripted git_head_ambiguous) no_flags MERGE_REPO_DIR (cloned [])) = Inr None"
    using get_head_branch_never_raises [of "scripted git_head_ambiguous" no_flags MERGE_REPO_DIR "cloned []"] b c'
    by auto
  let ?sys = "scripted git_trunk_silent"
  let ?start = "cloned [[]] :: unit world"
  let ?listed = "snd (list_branches ?sys no_flags MERGE_REPO_DIR ?start)"
  let ?queried = "snd (get_head_branch ?sys no_flags MERGE_REPO_DIR ?listed)"
  let ?dated = "snd (get_commit_dates ?sys no_flags MERGE_REPO_DIR [''dev'', ''trunk''] ?queried)"
  have fl: "fst (list_branches ?sys no_flags MERGE_REPO_DIR ?start) = Inr [''dev'', ''trunk'']"
    by (simp add: model_defs script_defs)
  have l: "list_branches ?sys no_flags MERGE_REPO_DIR ?start = (Inr [''dev'', ''trunk''], ?listed)"
    by (simp add: prod_eq_iff fl)
  have fg: "fst (get_head_branch ?sys no_flags MERGE_REPO_DIR ?listed) = Inr (Some ''main'')"
    by (simp add: model_defs script_defs)
  have fd: "fst (get_commit_dates ?sys no_flags MERGE_REPO_DIR [''dev'', ''trunk''] ?queried) =
      Inr [''dev'' \<mapsto> [], ''trunk'' \<mapsto> []]"
    by (simp add: model_defs script_defs)
  have d: "get_commit_dates ?sys no_flags MERGE_REPO_DIR [''dev'', ''trunk''] ?queried =
      (Inr [''dev'' \<mapsto> [], ''trunk'' \<mapsto> []], ?dated)"
    by (simp add: prod_eq_iff fd)
  have t: "table_rows [''dev'', ''trunk''] [''dev'' \<mapsto> [], ''trunk'' \<mapsto> []] =
      Inr [(''dev'', []), (''trunk'', [])]"
    by (simp add: table_rows_def)
  have p: "print_table ?sys [(''dev'', []), (''trunk'', [])] ?dated = (Inr (), ?dated)"
    by (rule print_table_ok) (auto intro: no_bracket_renders)
  have i: "stdin ?dated = [[]]"
    by (simp add: model_defs script_defs)
  obtain r w' where g: "get_head_branch ?sys no_flags MERGE_REPO_DIR ?listed = (Inr r, w')"
    and caller: "\<forall>w0 b bs dates w2 rows.
        list_branches ?sys no_flags MERGE_REPO_DIR w0 = (Inr (b # bs), ?listed) \<and>
        get_commit_dates ?sys no_flags MERGE_REPO_DIR (b # bs) w' = (Inr dates, w2) \<and>
        table_rows (b # bs) dates = Inr rows \<and>
        print_table ?sys rows w2 = (Inr (), w2) \<longrightarrow>
        choose_branch ?sys no_flags MERGE_REPO_DIR w0 =
          Prompt_ask ''Select branch to merge'' (Some (b # bs))
            (Some (case r of None \<Rightarrow> b | Some h \<Rightarrow> if h \<in> set (b # bs) then h else b)) w2"
    using get_head_branch_never_raises [of ?sys no_flags MERGE_REPO_DIR ?listed] by blast
  from g fg have r: "r = Some ''main''" by simp
  from g have w': "w' = ?queried" by simp
  have "choose_branch ?sys no_flags MERGE_REPO_DIR ?start =
          Prompt_ask ''Select branch to merge'' (Some [''dev'', ''trunk''])
            (Some (case r of None \<Rightarrow> ''dev'' | Some h \<Rightarrow> if h \<in> set [''dev'', ''trunk''] then h else ''dev'')) ?dated"
    using caller l d t p unfolding w' by blast
  then have 3: "fst (choose_branch ?sys no_flags MERGE_REPO_DIR ?start) = Inr ''dev''"
    by (simp add: r Prompt_ask_def i)
  show ?thesis by (intro conjI a 1 b c 2 fl 3)
qed

subsection \<open>Working areas at the end of the session\<close>

lemmas session_defs = session_def session_body_def cleanup_def rmtree_def clone_repo_def truthy_def
  conflict_strategy_of_def filter_repo_to_subdir_def perform_merge_def offer_diff_def
  attempt_merge_def on_merge_failure_def conflict_notice_def strategy_flag_def base_merge_cmd_def
  show_git_stat_def print_analytics_def
  lower_def lower_char_def none_strip_msg_def flags_y_def flags_y_main_def flags_side_def
  flags_retry_def flags_debug_def

lemma keeps_dirsI: "(\<And>w r w'. m w = (r, w') \<Longrightarrow> dir_exists w' = dir_exists w) \<Longrightarrow> keeps_dirs m"
  unfolding keeps_dirs_def by (metis prod.collapse)

lemma keeps_dirsD: "keeps_dirs m \<Longrightarrow> m w = (r, w') \<Longrightarrow> dir_exists w' = dir_exists w"
  unfolding keeps_dirs_def by (metis snd_conv)

lemma keeps_return: "keeps_dirs (io_return v)"
  by (simp add: keeps_dirs_def io_return_def)

lemma keeps_raise: "keeps_dirs (io_raise e)"
  by (simp add: keeps_dirs_def io_raise_def)

lemma keeps_lift: "keeps_dirs (io_lift r)"
  by (simp add: keeps_dirs_def io_lift_def)

lemma keeps_bind: "keeps_dirs m \<Longrightarrow> (\<And>v. keeps_dirs (f v)) \<Longrightarrow> keeps_dirs (io_bind m f)"
  by (auto simp: keeps_dirs_def io_bind_def split: prod.splits sum.splits)
    (metis snd_conv)+

lemma keeps_try: "keeps_dirs m \<Longrightarrow> (\<And>e. keeps_dirs (h e)) \<Longrightarrow> keeps_dirs (io_try m h)"
  by (auto simp: keeps_dirs_def io_try_def split: prod.splits sum.splits)
    (metis snd_conv)+

lemma keeps_if: "keeps_dirs m \<Longrightarrow> keeps_dirs n \<Longrightarrow> keeps_dirs (if c then m else n)"
  by simp

lemma keeps_run_cmd: "keeps_dirs (run_cmd sys a cmd cwd live)"
  by (rule keeps_dirsI) (rule run_cmd_dirs)

lemma keeps_Prompt_ask: "keeps_dirs (Prompt_ask t choices dflt)"
  by (simp add: keeps_dirs_def Prompt_ask_def split: prod.splits)

lemma keeps_unchanged: "(\<And>w. snd (m w) = w) \<Longrightarrow> keeps_dirs m"
  by (simp add: keeps_dirs_def)

lemma keeps_rich_print: "keeps_dirs (rich_print sys t)"
  by (rule keeps_unchanged) (rule rich_print_world)

lemma keeps_print_table: "keeps_dirs (print_table sys rows)"
  by (rule keeps_unchanged) (rule print_table_world)

lemma print_analytics_world: "snd (print_analytics sys a w) = w"
  by (cases "args_analytics a") (simp_all add: print_analytics_def render_all_world del: render_all.simps)

lemma keeps_print_analytics: "keeps_dirs (print_analytics sys a)"
  by (rule keeps_unchanged) (rule print_analytics_world)

lemmas keeps_basic = keeps_return keeps_raise keeps_lift keeps_bind keeps_try keeps_if
  keeps_run_cmd keeps_Prompt_ask keeps_rich_print keeps_print_table keeps_print_analytics

lemma keeps_list_branches: "keeps_dirs (list_branches sys a repo_dir)"
  unfolding list_branches_def by (intro keeps_basic)

lemma keeps_get_head_branch: "keeps_dirs (get_head_branch sys a repo_dir)"
  unfolding get_head_branch_def by (intro keeps_basic)

lemma keeps_dates_loop: "keeps_dirs (get_commit_dates_loop sys a repo_dir bs results)"
proof (induction bs arbitrary: results)
  case Nil
  show ?case by (simp add: keeps_return)
next
  case (Cons b bs)
  show ?case unfolding get_commit_dates_loop.simps by (intro keeps_basic Cons.IH)
qed

lemma keeps_choose_branch: "keeps_dirs (choose_branch sys a repo_dir)"
  unfolding choose_branch_def get_commit_dates_def
  by (intro keeps_basic keeps_list_branches keeps_get_head_branch keeps_dates_loop)

lemma keeps_filter: "keeps_dirs (filter_repo_to_subdir sys a repo_dir subdir)"
  unfolding filter_repo_to_subdir_def by (intro keeps_basic)

lemma keeps_on_merge_failure: "keeps_dirs (on_merge_failure sys a sd cs e)"
  unfolding on_merge_failure_def by (intro keeps_basic)

lemma keeps_attempt_merge: "keeps_dirs (attempt_merge sys a sd cs)"
  unfolding attempt_merge_def by (intro keeps_basic keeps_on_merge_failure)

lemma keeps_offer_diff: "keeps_dirs (offer_diff sys a)"
  unfolding offer_diff_def by (intro keeps_basic)

lemma keeps_perform_merge: "keeps_dirs (perform_merge sys a b s cs)"
  unfolding perform_merge_def by (intro keeps_basic keeps_offer_diff keeps_attempt_merge)

lemma keeps_show_git_stat: "keeps_dirs (show_git_stat sys a)"
  unfolding show_git_stat_def by (intro keeps_basic)

lemma keeps_after_clones: "keeps_dirs (after_clones sys a subdir)"
  unfolding after_clones_def
  by (intro keeps_basic keeps_choose_branch keeps_filter keeps_perform_merge keeps_show_git_stat)

lemma needs_dirD: "needs_dir r m \<Longrightarrow> m w = (Inr v, w') \<Longrightarrow> dir_exists w r"
  unfolding needs_dir_def by (metis fst_conv sum.disc(2))

lemma needs_run_cmd: "needs_dir r (run_cmd sys a cmd (Some r) live)"
  unfolding needs_dir_def
proof
  fix w
  show "isl (fst (run_cmd sys a cmd (Some r) live w)) \<or> dir_exists w r"
    by (cases "dir_exists w r") (simp_all add: run_cmd_missing cwd_missing_def)
qed

lemma needs_bind_first:
  assumes "needs_dir r m"
  shows "needs_dir r (io_bind m f)"
  unfolding needs_dir_def
proof
  fix w
  from assms have "isl (fst (m w)) \<or> dir_exists w r" by (simp add: needs_dir_def)
  then show "isl (fst (io_bind m f w)) \<or> dir_exists w r"
    by (cases "m w") (auto simp: io_bind_def isl_def split: sum.splits)
qed

lemma needs_bind_later:
  assumes "keeps_dirs m" and "\<And>v. needs_dir r (f v)"
  shows "needs_dir r (io_bind m f)"
  unfolding needs_dir_def
proof
  fix w
  obtain res w1 where m: "m w = (res, w1)" by (cases "m w")
  have k: "dir_exists w1 = dir_exists w" using assms(1) m by (rule keeps_dirsD)
  show "isl (fst (io_bind m f w)) \<or> dir_exists w r"
  proof (cases res)
    case (Inl e)
    with m show ?thesis by (simp add: io_bind_def)
  next
    case (Inr v)
    from assms(2) [of v] have "isl (fst (f v w1)) \<or> dir_exists w1 r" by (simp add: needs_dir_def)
    with m Inr k show ?thesis by (simp add: io_bind_def)
  qed
qed

lemma needs_perform_merge: "needs_dir BASE_REPO_DIR (perform_merge sys a b s cs)"
  unfolding perform_merge_def by (intro needs_bind_first needs_run_cmd)

lemma needs_after_clones:
  "needs_dir MERGE_REPO_DIR (after_clones sys a subdir)" "needs_dir BASE_REPO_DIR (after_clones sys a subdir)"
  unfolding after_clones_def
  by (intro needs_bind_later keeps_choose_branch needs_bind_first needs_run_cmd,
      intro needs_bind_later keeps_choose_branch keeps_run_cmd keeps_filter keeps_basic
        needs_bind_first needs_perform_merge)


lemma session_body_split:
  "session_body sys a =
     io_bind (\<lambda>w. (Inr (), if \<not> args_retry a then cleanup w else w)) (\<lambda>_.
     io_bind (if \<not> truthy (GITMERGE_BASE sys) then Prompt_ask ''Base repo URL'' None None
              else io_return (the (GITMERGE_BASE sys))) (\<lambda>base_url.
     io_bind (if \<not> truthy (GITMERGE_MERGE sys) then Prompt_ask ''Repo to merge in'' None None
              else io_return (the (GITMERGE_MERGE sys))) (\<lambda>merge_url.
     io_bind (if \<not> args_y a then Prompt_ask ''Subdirectory to move merged code into'' None None
              else io_return ''merged_content'') (\<lambda>subdir.
     io_bind (clone_repo sys base_url BASE_REPO_DIR) (\<lambda>_.
     io_bind (clone_repo sys merge_url MERGE_REPO_DIR) (\<lambda>_.
     after_clones sys a subdir))))))"
  by (simp add: session_body_def after_clones_def)

lemma io_bind_Inr:
  assumes "io_bind m f w = (Inr v, w')"
  obtains u w1 where "m w = (Inr u, w1)" and "f u w1 = (Inr v, w')"
  using assms by (auto simp: io_bind_def split: prod.splits sum.splits)

lemma session_body_success:
  assumes "session_body sys a w = (Inr u, w')"
  shows "dir_exists w' BASE_REPO_DIR \<and> dir_exists w' MERGE_REPO_DIR"
proof -
  from assms obtain subdir w6 where t: "after_clones sys a subdir w6 = (Inr u, w')"
    unfolding session_body_split by (elim io_bind_Inr) blast
  have k: "dir_exists w' = dir_exists w6" using keeps_after_clones t by (rule keeps_dirsD)
  have "dir_exists w6 MERGE_REPO_DIR" using needs_after_clones(1) t by (rule needs_dirD)
  moreover have "dir_exists w6 BASE_REPO_DIR" using needs_after_clones(2) t by (rule needs_dirD)
  ultimately show ?thesis using k by simp
qed

subsection \<open>Failed commands fail the session\<close>

lemma unrecovered_append: "unrecovered (xs @ ys) = unrecovered xs @ unrecovered ys"
  by (simp add: unrecovered_def)

lemma harmless_unchanged: "(\<And>w. exits (snd (m w)) = exits w) \<Longrightarrow> harmless m"
  unfolding harmless_def
proof
  fix w
  assume "\<And>w. exits (snd (m w)) = exits w"
  then have "exits (snd (m w)) = exits w @ [] \<and> unrecovered [] = []" by (simp add: unrecovered_def)
  then show "\<exists>new. exits (snd (m w)) = exits w @ new \<and> unrecovered new = []" by blast
qed

lemma harmless_propagates: "harmless m \<Longrightarrow> propagates m"
  unfolding harmless_def propagates_def by blast

lemma harmless_return: "harmless (io_return v)"
  by (rule harmless_unchanged) (simp add: io_return_def)

lemma harmless_raise: "harmless (io_raise e)"
  by (rule harmless_unchanged) (simp add: io_raise_def)

lemma harmless_lift: "harmless (io_lift r)"
  by (rule harmless_unchanged) (simp add: io_lift_def)

lemma harmless_rich_print: "harmless (rich_print sys t)"
  by (rule harmless_unchanged) (simp add: rich_print_world)

lemma harmless_print_table: "harmless (print_table sys rows)"
  by (rule harmless_unchanged) (simp add: print_table_world)

lemma harmless_print_analytics: "harmless (print_analytics sys a)"
  by (rule harmless_unchanged) (simp add: print_analytics_world)

lemma harmless_Prompt_ask: "harmless (Prompt_ask t choices dflt)"
  by (rule harmless_unchanged) (simp add: Prompt_ask_def split: prod.splits)

lemma harmless_clone_repo: "harmless (clone_repo sys url target)"
  by (rule harmless_unchanged) (simp add: clone_repo_def split: prod.splits)

lemma cleanup_exits: "exits (cleanup w) = exits w"
  by (simp add: cleanup_def rmtree_def)

lemma harmless_first_cleanup: "harmless (\<lambda>w. (Inr (), if c then cleanup w else w))"
  by (rule harmless_unchanged) (simp add: cleanup_exits)

lemma harmless_if: "harmless m \<Longrightarrow> harmless n \<Longrightarrow> harmless (if c then m else n)"
  by simp

lemma propagates_if: "propagates m \<Longrightarrow> propagates n \<Longrightarrow> propagates (if c then m else n)"
  by simp

lemma harmless_bind:
  assumes "harmless m" and "\<And>v. harmless (f v)"
  shows "harmless (io_bind m f)"
  unfolding harmless_def
proof
  fix w
  obtain res w1 where m: "m w = (res, w1)" by (cases "m w")
  from assms(1) obtain n1 where e1: "exits (snd (m w)) = exits w @ n1" and u1: "unrecovered n1 = []"
    unfolding harmless_def by blast
  show "\<exists>new. exits (snd (io_bind m f w)) = exits w @ new \<and> unrecovered new = []"
  proof (cases res)
    case (Inl e)
    with m e1 u1 show ?thesis by (auto simp: io_bind_def)
  next
    case (Inr v)
    from assms(2) [of v] obtain n2 where e2: "exits (snd (f v w1)) = exits w1 @ n2"
      and u2: "unrecovered n2 = []"
      unfolding harmless_def by blast
    from m e1 e2 Inr have "exits (snd (io_bind m f w)) = exits w @ (n1 @ n2)"
      by (simp add: io_bind_def)
    moreover from u1 u2 have "unrecovered (n1 @ n2) = []" by (simp add: unrecovered_append)
    ultimately show ?thesis by blast
  qed
qed

lemma harmless_try:
  assumes "harmless m" and "\<And>e. harmless (h e)"
  shows "harmless (io_try m h)"
  unfolding harmless_def
proof
  fix w
  obtain res w1 where m: "m w = (res, w1)" by (cases "m w")
  from assms(1) obtain n1 where e1: "exits (snd (m w)) = exits w @ n1" and u1: "unrecovered n1 = []"
    unfolding harmless_def by blast
  show "\<exists>new. exits (snd (io_try m h w)) = exits w @ new \<and> unrecovered new = []"
  proof (cases res)
    case (Inr v)
    with m e1 u1 show ?thesis by (auto simp: io_try_def)
  next
    case (Inl e)
    show ?thesis
    proof (cases "is_Exception e")
      case False
      with Inl m e1 u1 show ?thesis by (auto simp: io_try_def)
    next
      case True
      from assms(2) [of e] obtain n2 where e2: "exits (snd (h e w1)) = exits w1 @ n2"
        and u2: "unrecovered n2 = []"
        unfolding harmless_def by blast
      from m e1 e2 Inl True have "exits (snd (io_try m h w)) = exits w @ (n1 @ n2)"
        by (simp add: io_try_def)
      moreover from u1 u2 have "unrecovered (n1 @ n2) = []" by (simp add: unrecovered_append)
      ultimately show ?thesis by blast
    qed
  qed
qed

lemma propagates_bind:
  assumes "propagates m" and "\<And>v. propagates (f v)"
  shows "propagates (io_bind m f)"
  unfolding propagates_def
proof
  fix w
  obtain res w1 where m: "m w = (res, w1)" by (cases "m w")
  from assms(1) obtain n1 where e1: "exits (snd (m w)) = exits w @ n1"
    and u1: "unrecovered n1 = [] \<or> isl (fst (m w))"
    unfolding propagates_def by blast
  show "\<exists>new. exits (snd (io_bind m f w)) = exits w @ new \<and>
          (unrecovered new = [] \<or> isl (fst (io_bind m f w)))"
  proof (cases res)
    case (Inl e)
    with m e1 show ?thesis by (auto simp: io_bind_def)
  next
    case (Inr v)
    with m u1 have u1': "unrecovered n1 = []" by simp
    from assms(2) [of v] obtain n2 where e2: "exits (snd (f v w1)) = exits w1 @ n2"
      and u2: "unrecovered n2 = [] \<or> isl (fst (f v w1))"
      unfolding propagates_def by blast
    from m e1 e2 Inr have "exits (snd (io_bind m f w)) = exits w @ (n1 @ n2)"
      by (simp add: io_bind_def)
    moreover from u1' u2 m Inr have "unrecovered (n1 @ n2) = [] \<or> isl (fst (io_bind m f w))"
      by (auto simp: unrecovered_append io_bind_def)
    ultimately show ?thesis by blast
  qed
qed

text \<open>A handler after a step whose failures are all recovered.\<close>

lemma propagates_try_harmless:
  assumes "harmless m" and "\<And>e. propagates (h e)"
  shows "propagates (io_try m h)"
  unfolding propagates_def
proof
  fix w
  obtain res w1 where m: "m w = (res, w1)" by (cases "m w")
  from assms(1) obtain n1 where e1: "exits (snd (m w)) = exits w @ n1" and u1: "unrecovered n1 = []"
    unfolding harmless_def by blast
  show "\<exists>new. exits (snd (io_try m h w)) = exits w @ new \<and>
          (unrecovered new = [] \<or> isl (fst (io_try m h w)))"
  proof (cases res)
    case (Inr v)
    with m e1 u1 show ?thesis by (auto simp: io_try_def)
  next
    case (Inl e)
    show ?thesis
    proof (cases "is_Exception e")
      case False
      with Inl m e1 u1 show ?thesis by (auto simp: io_try_def)
    next
      case True
      from assms(2) [of e] obtain n2 where e2: "exits (snd (h e w1)) = exits w1 @ n2"
        and u2: "unrecovered n2 = [] \<or> isl (fst (h e w1))"
        unfolding propagates_def by blast
      from m e1 e2 Inl True have "exits (snd (io_try m h w)) = exits w @ (n1 @ n2)"
        by (simp add: io_try_def)
      moreover from u1 u2 m Inl True have "unrecovered (n1 @ n2) = [] \<or> isl (fst (io_try m h w))"
        by (auto simp: unrecovered_append io_try_def)
      ultimately show ?thesis by blast
    qed
  qed
qed

text \<open>A handler that runs no command and always raises.\<close>

lemma propagates_try_raising:
  assumes "propagates m" and "\<And>e w. exits (snd (h e w)) = exits w" and "\<And>e w. isl (fst (h e w))"
  shows "propagates (io_try m h)"
  unfolding propagates_def
proof
  fix w
  obtain res w1 where m: "m w = (res, w1)" by (cases "m w")
  from assms(1) obtain n1 where e1: "exits (snd (m w)) = exits w @ n1"
    and u1: "unrecovered n1 = [] \<or> isl (fst (m w))"
    unfolding propagates_def by blast
  show "\<exists>new. exits (snd (io_try m h w)) = exits w @ new \<and>
          (unrecovered new = [] \<or> isl (fst (io_try m h w)))"
  proof (cases res)
    case (Inr v)
    with m e1 u1 show ?thesis by (auto simp: io_try_def)
  next
    case (Inl e)
    show ?thesis
    proof (cases "is_Exception e")
      case False
      with Inl m e1 show ?thesis by (auto simp: io_try_def)
    next
      case True
      from m e1 Inl True assms(2) [of e w1] have "exits (snd (io_try m h w)) = exits w @ n1"
        by (simp add: io_try_def)
      moreover from m Inl True assms(3) [of e w1] have "isl (fst (io_try m h w))"
        by (simp add: io_try_def)
      ultimately show ?thesis by blast
    qed
  qed
qed

lemma run_cmd_exits:
  "\<exists>new. exits (snd (run_cmd sys a cmd cwd live w)) = exits w @ new \<and>
     (new = [] \<or> (\<exists>rc. new = [(cmd, rc)] \<and> (rc \<noteq> 0 \<longrightarrow> isl (fst (run_cmd sys a cmd cwd live w)))))"
proof (cases "cwd_missing w cwd")
  case True
  then show ?thesis by (simp add: run_cmd_missing)
next
  case False
  obtain p x1 where s: "sh sys cmd cwd (ext w) = (p, x1)" by (cases "sh sys cmd cwd (ext w)")
  have "exits (snd (run_cmd sys a cmd cwd live w)) = exits w @ [(cmd, exit_code p)]"
    by (simp add: run_cmd_world [OF False s] spawned_def Let_def)
  moreover have "exit_code p \<noteq> 0 \<longrightarrow> isl (fst (run_cmd sys a cmd cwd live w))"
    using run_cmd_nonzero [OF False s] by simp
  ultimately show ?thesis by blast
qed

lemma propagates_run_cmd: "propagates (run_cmd sys a cmd cwd live)"
  unfolding propagates_def
proof
  fix w
  from run_cmd_exits [of sys a cmd cwd live w] obtain new where
    e: "exits (snd (run_cmd sys a cmd cwd live w)) = exits w @ new"
    and c: "new = [] \<or> (\<exists>rc. new = [(cmd, rc)] \<and> (rc \<noteq> 0 \<longrightarrow> isl (fst (run_cmd sys a cmd cwd live w))))"
    by blast
  from c have "unrecovered new = [] \<or> isl (fst (run_cmd sys a cmd cwd live w))"
    by (auto simp: unrecovered_def)
  with e show "\<exists>new. exits (snd (run_cmd sys a cmd cwd live w)) = exits w @ new \<and>
      (unrecovered new = [] \<or> isl (fst (run_cmd sys a cmd cwd live w)))" by blast
qed

lemma harmless_run_cmd: "recovered_command cmd \<Longrightarrow> harmless (run_cmd sys a cmd cwd live)"
  unfolding harmless_def
proof
  fix w
  assume r: "recovered_command cmd"
  from run_cmd_exits [of sys a cmd cwd live w] obtain new where
    e: "exits (snd (run_cmd sys a cmd cwd live w)) = exits w @ new"
    and c: "new = [] \<or> (\<exists>rc. new = [(cmd, rc)] \<and> (rc \<noteq> 0 \<longrightarrow> isl (fst (run_cmd sys a cmd cwd live w))))"
    by blast
  from c r have "unrecovered new = []" by (auto simp: unrecovered_def)
  with e show "\<exists>new. exits (snd (run_cmd sys a cmd cwd live w)) = exits w @ new \<and> unrecovered new = []"
    by blast
qed

lemma recovered_query: "recovered_command ''git remote show origin''"
  by (simp add: recovered_command_def)

lemma recovered_date: "recovered_command (date_cmd b)"
  by (simp add: recovered_command_def date_cmd_def)

lemma first_merge_cmd:
  "strip (base_merge_cmd cs) \<in> set [''git merge merge_repo/HEAD --allow-unrelated-histories'',
      ''git merge merge_repo/HEAD --allow-unrelated-histories -X ours'',
      ''git merge merge_repo/HEAD --allow-unrelated-histories -X theirs'']"
  by (simp add: base_merge_cmd_def strategy_flag_def strip_def py_isspace_def)

lemma recovered_first_merge: "recovered_command (strip (base_merge_cmd cs))"
  using first_merge_cmd [of cs] unfolding recovered_command_def by simp

lemmas harmless_basic = harmless_return harmless_raise harmless_lift harmless_rich_print
  harmless_print_table harmless_print_analytics harmless_Prompt_ask harmless_clone_repo
  harmless_first_cleanup harmless_if harmless_bind harmless_try

lemmas propagates_basic = propagates_run_cmd propagates_bind propagates_if
  harmless_basic [THEN harmless_propagates]

lemma harmless_get_head_branch: "harmless (get_head_branch sys a repo_dir)"
  unfolding get_head_branch_def
  by (intro harmless_basic harmless_run_cmd recovered_query)

lemma harmless_dates_loop: "harmless (get_commit_dates_loop sys a repo_dir bs results)"
proof (induction bs arbitrary: results)
  case Nil
  show ?case by (simp add: harmless_return)
next
  case (Cons b bs)
  show ?case unfolding get_commit_dates_loop.simps
    by (intro harmless_basic harmless_run_cmd recovered_date Cons.IH)
qed

lemma propagates_list_branches: "propagates (list_branches sys a repo_dir)"
  unfolding list_branches_def
  by (intro propagates_bind propagates_run_cmd harmless_propagates harmless_lift harmless_return)

lemma propagates_choose_branch: "propagates (choose_branch sys a repo_dir)"
  unfolding choose_branch_def get_commit_dates_def
  by (intro propagates_bind propagates_list_branches harmless_propagates
      harmless_get_head_branch harmless_dates_loop harmless_lift harmless_print_table
      harmless_Prompt_ask)

lemma propagates_filter: "propagates (filter_repo_to_subdir sys a repo_dir subdir)"
  unfolding filter_repo_to_subdir_def
proof (rule propagates_try_raising)
  show "propagates (io_bind (run_cmd sys a
      (''git-filter-repo --to-subdirectory-filter '' @ subdir @ '' --force'') (Some repo_dir) False)
      (\<lambda>_. io_return ()))"
    by (intro propagates_bind propagates_run_cmd harmless_propagates harmless_return)
next
  fix e w
  show "exits (snd (io_bind (rich_print sys (str_exn e)) (\<lambda>_. io_raise (SystemExit 1)) w)) = exits w"
    by (cases "render_error sys (str_exn e)") (simp_all add: io_bind_def rich_print_def io_raise_def)
  show "isl (fst (io_bind (rich_print sys (str_exn e)) (\<lambda>_. io_raise (SystemExit 1)) w))"
    by (cases "render_error sys (str_exn e)") (simp_all add: io_bind_def rich_print_def io_raise_def)
qed

lemma propagates_on_merge_failure: "propagates (on_merge_failure sys a sd cs e)"
  unfolding on_merge_failure_def
  by (intro propagates_if propagates_bind propagates_run_cmd harmless_propagates
      harmless_return harmless_rich_print harmless_Prompt_ask)

lemma propagates_attempt_merge: "propagates (attempt_merge sys a sd cs)"
  unfolding attempt_merge_def
  by (intro propagates_try_harmless harmless_bind harmless_return harmless_run_cmd
      recovered_first_merge propagates_on_merge_failure)

lemma propagates_offer_diff: "propagates (offer_diff sys a)"
  unfolding offer_diff_def
  by (intro propagates_if propagates_bind propagates_run_cmd harmless_propagates
      harmless_return harmless_Prompt_ask)

lemma propagates_perform_merge: "propagates (perform_merge sys a b sd cs)"
  unfolding perform_merge_def
  by (intro propagates_if propagates_bind propagates_run_cmd propagates_offer_diff
      propagates_attempt_merge harmless_propagates harmless_return)

lemma propagates_show_git_stat: "propagates (show_git_stat sys a)"
  unfolding show_git_stat_def
  by (intro propagates_if propagates_bind propagates_run_cmd harmless_propagates
      harmless_return harmless_rich_print)

lemma propagates_session_body: "propagates (session_body sys a)"
  unfolding session_body_def
  by (intro propagates_if propagates_bind propagates_run_cmd propagates_choose_branch
      propagates_filter propagates_perform_merge propagates_show_git_stat
      harmless_propagates harmless_first_cleanup harmless_Prompt_ask harmless_return
      harmless_clone_repo harmless_print_analytics)

lemma session_failed_command:
  assumes "(cmd, rc) \<in> set (drop (length (exits w)) (exits (snd (session sys a w))))"
    and "rc \<noteq> 0" and "\<not> recovered_command cmd"
  shows "isl (fst (session sys a w))"
proof -
  obtain res w1 where b: "session_body sys a w = (res, w1)" by (cases "session_body sys a w")
  from propagates_session_body [of sys a] obtain new where
    e: "exits (snd (session_body sys a w)) = exits w @ new"
    and u: "unrecovered new = [] \<or> isl (fst (session_body sys a w))"
    unfolding propagates_def by blast
  have "exits (snd (session sys a w)) = exits w1"
    using b by (cases res) (simp_all add: session_def cleanup_exits)
  with e b have "exits (snd (session sys a w)) = exits w @ new" by simp
  with assms(1) have "(cmd, rc) \<in> set new" by simp
  with assms(2,3) have "(cmd, rc) \<in> set (unrecovered new)" by (simp add: unrecovered_def)
  then have "unrecovered new \<noteq> []" by auto
  with u have "isl (fst (session_body sys a w))" by simp
  with b show ?thesis by (cases res) (simp_all add: session_def)
qed

text \<open>
  C1 (amended). Whenever the session ends in failure, \<open>cleanup\<close> has run and both
  working areas are absent; whenever it succeeds, both working areas are on disk and
  nothing was removed after the last step. The session fails exactly when an error
  leaves the \<open>try\<close> block, and it does so whenever a command that \<open>run_cmd\<close> has run
  exited non-zero, unless the command is the query for the default branch, the lookup
  of a date or the merge command of the first attempt.
\<close>

theorem session_cleanup_discipline:
  "(isl (fst (session sys a w)) \<longrightarrow>
      \<not> dir_exists (snd (session sys a w)) BASE_REPO_DIR \<and>
      \<not> dir_exists (snd (session sys a w)) MERGE_REPO_DIR) \<and>
   (\<not> isl (fst (session sys a w)) \<longrightarrow>
      dir_exists (snd (session sys a w)) BASE_REPO_DIR \<and>
      dir_exists (snd (session sys a w)) MERGE_REPO_DIR \<and>
      session sys a w = session_body sys a w) \<and>
   (isl (fst (session sys a w)) \<longleftrightarrow> isl (fst (session_body sys a w))) \<and>
   (\<forall>cmd rc. (cmd, rc) \<in> set (drop (length (exits w)) (exits (snd (session sys a w)))) \<and>
        rc \<noteq> 0 \<and> \<not> recovered_command cmd \<longrightarrow>
      isl (fst (session sys a w)))"
proof -
  have p: "\<forall>cmd rc. (cmd, rc) \<in> set (drop (length (exits w)) (exits (snd (session sys a w)))) \<and>
        rc \<noteq> 0 \<and> \<not> recovered_command cmd \<longrightarrow>
      isl (fst (session sys a w))"
    using session_failed_command by blast
  show ?thesis
  proof (cases "session_body sys a w")
    case (Pair r w1)
    show ?thesis
    proof (cases r)
      case (Inl e)
      with Pair p show ?thesis by (simp add: session_def cleanup_removes)
    next
      case (Inr u)
      with Pair have "dir_exists w1 BASE_REPO_DIR \<and> dir_exists w1 MERGE_REPO_DIR"
        using session_body_success by blast
      with Pair Inr p show ?thesis by (simp add: session_def)
    qed
  qed
qed


lemma healthy_session:
  "fst (session (scripted git_healthy) flags_y_main (fresh [[], []])) = Inr ()"
  by (simp add: model_defs script_defs session_defs)

lemma fetch_fails_session:
  "fst (session (scripted (git_fetch_fails 1 ''fatal: no route'')) flags_y_main (fresh [[], []])) =
     Inl (Exception ''Command failed: git fetch merge_repo'')"
  by (simp add: model_defs script_defs session_defs)

lemma push_rejected_exits:
  "(''git push origin HEAD'', 1) \<in>
     set (drop (length (exits (fresh [[], ''yes''])))
            (exits (snd (session (scripted git_push_rejected) flags_y_main (fresh [[], ''yes''])))))"
  by (simp add: model_defs script_defs session_defs)

theorem session_cleanup_discipline_witness:
  "isl (fst (session (scripted (git_fetch_fails 1 ''fatal: no route'')) flags_y_main (fresh [[], []]))) \<and>
   \<not> dir_exists (snd (session (scripted (git_fetch_fails 1 ''fatal: no route'')) flags_y_main (fresh [[], []]))) BASE_REPO_DIR \<and>
   \<not> dir_exists (snd (session (scripted (git_fetch_fails 1 ''fatal: no route'')) flags_y_main (fresh [[], []]))) MERGE_REPO_DIR \<and>
   \<not> isl (fst (session (scripted git_healthy) flags_y_main (fresh [[], []]))) \<and>
   dir_exists (snd (session (scripted git_healthy) flags_y_main (fresh [[], []]))) BASE_REPO_DIR \<and>
   dir_exists (snd (session (scripted git_healthy) flags_y_main (fresh [[], []]))) MERGE_REPO_DIR \<and>
   (''git push origin HEAD'', 1) \<in>
     set (drop (length (exits (fresh [[], ''yes''])))
            (exits (snd (session (scripted git_push_rejected) flags_y_main (fresh [[], ''yes''])))))  \<and>
   \<not> recovered_command ''git push origin HEAD'' \<and>
   isl (fst (session (scripted git_push_rejected) flags_y_main (fresh [[], ''yes''])))"
proof -
  have f: "isl (fst (session (scripted (git_fetch_fails 1 ''fatal: no route'')) flags_y_main (fresh [[], []])))"
    by (simp add: fetch_fails_session)
  have h: "\<not> isl (fst (session (scripted git_healthy) flags_y_main (fresh [[], []])))"
    by (simp add: healthy_session)
  have n: "\<not> recovered_command ''git push origin HEAD''"
    by (simp add: recovered_command_def)
  note t1 = session_cleanup_discipline [of "scripted (git_fetch_fails 1 ''fatal: no route'')" flags_y_main "fresh [[], []]"]
  note t2 = session_cleanup_discipline [of "scripted git_healthy" flags_y_main "fresh [[], []]"]
  note t3 = session_cleanup_discipline [of "scripted git_push_rejected" flags_y_main "fresh [[], ''yes'']"]
  note a1 = t1 [THEN conjunct1, THEN mp, OF f]
  note a2 = t2 [THEN conjunct2, THEN conjunct1, THEN mp, OF h]
  have x: "(''git push origin HEAD'', 1) \<in>
      set (drop (length (exits (fresh [[], ''yes''])))
             (exits (snd (session (scripted git_push_rejected) flags_y_main (fresh [[], ''yes'']))))) \<and>
      (1::int) \<noteq> 0 \<and> \<not> recovered_command ''git push origin HEAD''"
    using push_rejected_exits n by simp
  note a3 = t3 [THEN conjunct2, THEN conjunct2, THEN conjunct2, THEN spec, THEN spec, THEN mp, OF x]
  show ?thesis
    by (intro conjI f h a1 [THEN conjunct1] a1 [THEN conjunct2] a2 [THEN conjunct1]
        a2 [THEN conjunct2, THEN conjunct1] push_rejected_exits n a3)
qed

text \<open>
  C1 as stated fails, three times over: the command of the default-branch query exits
  with 128; the merge command stops on conflicts with exit status 1 under \<open>-y\<close>; both
  clones exit with 128 over the working areas kept by \<open>--retry\<close>. None of the three is
  a per-branch date lookup, and each time the session succeeds with both working areas
  on disk.
\<close>

theorem session_recovers_counterexample:
  "(''git remote show origin'', 128) \<in>
     set (exits (snd (session (scripted git_remote_silent) flags_y_main (fresh [[], []])))) \<and>
   fst (session (scripted git_remote_silent) flags_y_main (fresh [[], []])) = Inr () \<and>
   dir_exists (snd (session (scripted git_remote_silent) flags_y_main (fresh [[], []]))) BASE_REPO_DIR \<and>
   dir_exists (snd (session (scripted git_remote_silent) flags_y_main (fresh [[], []]))) MERGE_REPO_DIR \<and>
   (''git merge merge_repo/HEAD --allow-unrelated-histories'', 1) \<in>
     set (exits (snd (session (scripted git_conflict_always) flags_y_main (fresh [[], []])))) \<and>
   fst (session (scripted git_conflict_always) flags_y_main (fresh [[], []])) = Inr () \<and>
   dir_exists (snd (session (scripted git_conflict_always) flags_y_main (fresh [[], []]))) BASE_REPO_DIR \<and>
   dir_exists (snd (session (scripted git_conflict_always) flags_y_main (fresh [[], []]))) MERGE_REPO_DIR \<and>
   fst (git_clone (scripted_no_clone git_healthy) ''https://example.org/base.git'' BASE_REPO_DIR ()) = 128 \<and>
   Clone ''https://example.org/base.git'' BASE_REPO_DIR \<in>
     set (trace (snd (session (scripted_no_clone git_healthy) flags_retry (cloned [[], []])))) \<and>
   fst (session (scripted_no_clone git_healthy) flags_retry (cloned [[], []])) = Inr () \<and>
   dir_exists (snd (session (scripted_no_clone git_healthy) flags_retry (cloned [[], []]))) BASE_REPO_DIR \<and>
   dir_exists (snd (session (scripted_no_clone git_healthy) flags_retry (cloned [[], []]))) MERGE_REPO_DIR"
  by (simp add: model_defs script_defs session_defs)

subsection \<open>Failures of the merge command\<close>

lemma streaming_failure_text:
  "\<not> contains ''unrelated histories'' (lower none_strip_msg)"
  by (simp add: none_strip_msg_def quote_def lower_def lower_char_def)

lemma spawned_fields:
  "trace (spawned a cmd cwd live p x1 w) = trace w @ [Spawn cmd cwd (\<not> live)]"
  "stdin (spawned a cmd cwd live p x1 w) = stdin w"
  "ext (spawned a cmd cwd live p x1 w) = x1"
  "dir_exists (spawned a cmd cwd live p x1 w) = dir_exists w"
  by (simp_all add: spawned_def Let_def)

text \<open>The lines logged for a merge command, which is streamed, hold no closing tag.\<close>

lemma first_merge_logs: "logs_render sys a (strip (base_merge_cmd cs)) True p"
  using first_merge_cmd [of cs]
  by (auto simp: logs_render_def render_error_def)

lemma forced_merge_logs:
  "logs_render sys a (if c then ''git merge --strategy=recursive -X theirs merge_repo/HEAD''
                      else ''git merge --strategy=recursive -X ours merge_repo/HEAD'') True p"
  by (simp add: logs_render_def render_error_def)

text \<open>
  C2 (amended). When the merge command fails with conflicts (it exits non-zero and not
  with a refusal of unrelated histories), a side is pre-selected and the console can
  print the notice of the conflict, the next thing the orchestrator does is to run the
  merge again with that side forced (\<open>-X theirs\<close> for \<open>--merge-conflict-side\<close>, \<open>-X ours\<close>
  for \<open>--merge-conflict-base\<close>), without asking the operator; the merge phase completes
  exactly when this second command exits with 0, and otherwise its failure is raised.
\<close>

theorem attempt_merge_forced_side:
  assumes "dir_exists w BASE_REPO_DIR"
    and "sh sys (strip (base_merge_cmd cs)) (Some BASE_REPO_DIR) (ext w) = (p, x1)"
    and "exit_code p \<noteq> 0"
    and "\<not> contains ''unrelated histories'' (lower (err_text p))"
    and "args_merge_conflict_side a \<or> args_merge_conflict_base a"
    and "render_error sys (conflict_notice subdir) = None"
    and "sh sys (if args_merge_conflict_side a
                 then ''git merge --strategy=recursive -X theirs merge_repo/HEAD''
                 else ''git merge --strategy=recursive -X ours merge_repo/HEAD'')
           (Some BASE_REPO_DIR) x1 = (q, x2)"
  shows "trace (snd (attempt_merge sys a subdir cs w)) =
           trace w @ [Spawn (strip (base_merge_cmd cs)) (Some BASE_REPO_DIR) False,
                      Spawn (if args_merge_conflict_side a
                             then ''git merge --strategy=recursive -X theirs merge_repo/HEAD''
                             else ''git merge --strategy=recursive -X ours merge_repo/HEAD'')
                        (Some BASE_REPO_DIR) False] \<and>
         stdin (snd (attempt_merge sys a subdir cs w)) = stdin w \<and>
         (fst (attempt_merge sys a subdir cs w) = Inr () \<longleftrightarrow> exit_code q = 0) \<and>
         (isl (fst (attempt_merge sys a subdir cs w)) \<longleftrightarrow> exit_code q \<noteq> 0)"
proof -
  let ?first = "strip (base_merge_cmd cs)"
  let ?forced = "if args_merge_conflict_side a
                 then ''git merge --strategy=recursive -X theirs merge_repo/HEAD''
                 else ''git merge --strategy=recursive -X ours merge_repo/HEAD''"
  let ?w1 = "spawned a ?first (Some BASE_REPO_DIR) True p x1 w"
  let ?w2 = "spawned a ?forced (Some BASE_REPO_DIR) True q x2 ?w1"
  have d: "\<not> cwd_missing w (Some BASE_REPO_DIR)" using assms(1) by (simp add: cwd_missing_def)
  have r1: "run_cmd sys a ?first (Some BASE_REPO_DIR) True w = (Inl (AttributeError none_strip_msg), ?w1)"
    using assms(3) by (simp add: run_cmd_spawned [OF d assms(2) first_merge_logs])
  have d1: "\<not> cwd_missing ?w1 (Some BASE_REPO_DIR)"
    using assms(1) by (simp add: cwd_missing_def spawned_fields)
  have s1: "sh sys ?forced (Some BASE_REPO_DIR) (ext ?w1) = (q, x2)"
    using assms(7) by (simp only: spawned_fields)
  have r2: "run_cmd sys a ?forced (Some BASE_REPO_DIR) True ?w1 =
      ((if exit_code q \<noteq> 0 then Inl (AttributeError none_strip_msg) else Inr []), ?w2)"
    by (simp add: run_cmd_spawned [OF d1 s1 forced_merge_logs])
  have n: "rich_print sys (conflict_notice subdir) ?w1 = (Inr (), ?w1)"
    using assms(6) by (rule rich_print_ok)
  have h: "on_merge_failure sys a subdir cs (AttributeError none_strip_msg) ?w1 =
      ((if exit_code q \<noteq> 0 then Inl (AttributeError none_strip_msg) else Inr ()), ?w2)"
  proof (cases "args_merge_conflict_side a")
    case True
    with r2 n show ?thesis
      by (simp add: on_merge_failure_def streaming_failure_text io_bind_def io_return_def)
  next
    case False
    with assms(5) have "args_merge_conflict_base a" by simp
    with False r2 n show ?thesis
      by (simp add: on_merge_failure_def streaming_failure_text io_bind_def io_return_def)
  qed
  have "attempt_merge sys a subdir cs w =
      ((if exit_code q \<noteq> 0 then Inl (AttributeError none_strip_msg) else Inr ()), ?w2)"
    by (simp add: attempt_merge_def io_try_def io_bind_def r1 h)
  then show ?thesis by (simp add: spawned_fields)
qed

theorem attempt_merge_forced_side_witness:
  "dir_exists (cloned []) BASE_REPO_DIR \<and>
   exit_code (git_conflict_once ''git merge merge_repo/HEAD --allow-unrelated-histories -X theirs'') \<noteq> 0 \<and>
   \<not> contains ''unrelated histories''
       (lower (err_text (git_conflict_once ''git merge merge_repo/HEAD --allow-unrelated-histories -X theirs''))) \<and>
   args_merge_conflict_side flags_side \<and>
   render_error (scripted git_conflict_once) (conflict_notice ''vendor'') = None \<and>
   fst (attempt_merge (scripted git_conflict_once) flags_side ''vendor'' (Some ''side'') (cloned [])) = Inr () \<and>
   trace (snd (attempt_merge (scripted git_conflict_once) flags_side ''vendor'' (Some ''side'') (cloned []))) =
     [Spawn ''git merge merge_repo/HEAD --allow-unrelated-histories -X theirs'' (Some BASE_REPO_DIR) False,
      Spawn ''git merge --strategy=recursive -X theirs merge_repo/HEAD'' (Some BASE_REPO_DIR) False]"
proof -
  let ?sys = "scripted git_conflict_once"
  let ?p = "git_conflict_once ''git merge merge_repo/HEAD --allow-unrelated-histories -X theirs''"
  let ?q = "git_conflict_once ''git merge --strategy=recursive -X theirs merge_repo/HEAD''"
  have d: "dir_exists (cloned []) BASE_REPO_DIR" by (simp add: cloned_def both_dirs_def)
  have c: "strip (base_merge_cmd (Some ''side'')) =
      ''git merge merge_repo/HEAD --allow-unrelated-histories -X theirs''"
    by (simp add: base_merge_cmd_def strategy_flag_def strip_def py_isspace_def)
  have s1: "sh ?sys (strip (base_merge_cmd (Some ''side''))) (Some BASE_REPO_DIR) (ext (cloned [])) = (?p, ())"
    unfolding c by (simp add: scripted_def scripted_sh_def)
  have e: "exit_code ?p \<noteq> 0" by (simp add: git_conflict_once_def respond_def)
  have u: "\<not> contains ''unrelated histories'' (lower (err_text ?p))"
    by (simp add: git_conflict_once_def respond_def lower_def lower_char_def)
  have f: "args_merge_conflict_side flags_side" by (simp add: flags_side_def no_flags_def)
  then have pol: "args_merge_conflict_side flags_side \<or> args_merge_conflict_base flags_side" ..
  have n: "render_error ?sys (conflict_notice ''vendor'') = None"
    by (simp add: model_defs script_defs session_defs)
  have s2: "sh ?sys (if args_merge_conflict_side flags_side
                     then ''git merge --strategy=recursive -X theirs merge_repo/HEAD''
                     else ''git merge --strategy=recursive -X ours merge_repo/HEAD'')
              (Some BASE_REPO_DIR) () = (?q, ())"
    by (simp add: f scripted_def scripted_sh_def)
  have z: "exit_code ?q = 0" by (simp add: git_conflict_once_def respond_def)
  note t = attempt_merge_forced_side [OF d s1 e u pol n s2]
  have r: "fst (attempt_merge ?sys flags_side ''vendor'' (Some ''side'') (cloned [])) = Inr ()"
    using t z by simp
  have tr: "trace (snd (attempt_merge ?sys flags_side ''vendor'' (Some ''side'') (cloned []))) =
     [Spawn ''git merge merge_repo/HEAD --allow-unrelated-histories -X theirs'' (Some BASE_REPO_DIR) False,
      Spawn ''git merge --strategy=recursive -X theirs merge_repo/HEAD'' (Some BASE_REPO_DIR) False]"
    using t f by (simp add: c cloned_def)
  show ?thesis by (intro conjI d e u f n r tr)
qed

text \<open>
  C2 as stated fails: with \<open>--merge-conflict-side\<close>, when the forced merge stops on
  conflicts as well, \<open>perform_merge\<close> ends with an error, not with a resolved merge.
\<close>

theorem perform_merge_rerun_fails_counterexample:
  "args_merge_conflict_side flags_side \<and>
   fst (perform_merge (scripted git_conflict_always) flags_side ''main'' ''vendor'' (Some ''side'') (cloned [])) =
     Inl (AttributeError none_strip_msg) \<and>
   last (trace (snd (perform_merge (scripted git_conflict_always) flags_side ''main'' ''vendor''
                       (Some ''side'') (cloned [])))) =
     Spawn ''git merge --strategy=recursive -X theirs merge_repo/HEAD'' (Some BASE_REPO_DIR) False"
  by (simp add: model_defs script_defs session_defs)

text \<open>
  What the amended claim leaves out: the notice of the conflict is printed as markup
  with the name of the subdirectory in it, so for a name such as \<open>lib[/old]\<close> the
  console raises before the merge is run again.
\<close>

lemma conflict_notice_markup_failure:
  "isl (fst (attempt_merge (scripted git_conflict_once) flags_side ''lib[/old]'' (Some ''side'') (cloned []))) \<and>
   trace (snd (attempt_merge (scripted git_conflict_once) flags_side ''lib[/old]'' (Some ''side'') (cloned []))) =
     [Spawn ''git merge merge_repo/HEAD --allow-unrelated-histories -X theirs'' (Some BASE_REPO_DIR) False]"
  by (simp add: model_defs script_defs session_defs str_nat.simps digit_char_def)

text \<open>
  Whatever git reports, a merge command that exits non-zero is never taken for a refusal
  of unrelated histories: without a policy and with \<open>-y\<close> it is run once and its failure
  is dropped.
\<close>

lemma merge_failure_never_retried:
  assumes "dir_exists w BASE_REPO_DIR"
    and "sh sys (strip (base_merge_cmd cs)) (Some BASE_REPO_DIR) (ext w) = (p, x1)"
    and "exit_code p \<noteq> 0"
    and "\<not> args_merge_conflict_side a" and "\<not> args_merge_conflict_base a" and "args_y a"
    and "render_error sys (conflict_notice subdir) = None"
  shows "attempt_merge sys a subdir cs w =
           (Inr (), spawned a (strip (base_merge_cmd cs)) (Some BASE_REPO_DIR) True p x1 w)"
proof -
  have d: "\<not> cwd_missing w (Some BASE_REPO_DIR)" using assms(1) by (simp add: cwd_missing_def)
  have "run_cmd sys a (strip (base_merge_cmd cs)) (Some BASE_REPO_DIR) True w =
      (Inl (AttributeError none_strip_msg),
       spawned a (strip (base_merge_cmd cs)) (Some BASE_REPO_DIR) True p x1 w)"
    using assms(3) by (simp add: run_cmd_spawned [OF d assms(2) first_merge_logs])
  then show ?thesis
    using assms(4-6) rich_print_ok [OF assms(7)]
    by (simp add: attempt_merge_def io_try_def io_bind_def io_return_def on_merge_failure_def
        streaming_failure_text)
qed

text \<open>
  C3, the code at the failing input: git refuses the merge for unrelated histories; the
  merge command is run once and not again, no error is raised, and with \<open>-y\<close> the
  session reports success.
\<close>

theorem unrelated_histories_not_retried:
  "exit_code (git_merge_refused ''git merge merge_repo/HEAD --allow-unrelated-histories'') = 128 \<and>
   contains ''unrelated histories''
     (err_text (git_merge_refused ''git merge merge_repo/HEAD --allow-unrelated-histories'')) \<and>
   fst (attempt_merge (scripted git_merge_refused) flags_y ''merged_content'' None (cloned [])) = Inr () \<and>
   trace (snd (attempt_merge (scripted git_merge_refused) flags_y ''merged_content'' None (cloned []))) =
     [Spawn ''git merge merge_repo/HEAD --allow-unrelated-histories'' (Some BASE_REPO_DIR) False] \<and>
   fst (session (scripted git_merge_refused) flags_y_main (fresh [[], []])) = Inr ()"
  by (simp add: model_defs script_defs session_defs)

subsection \<open>The flag -y\<close>

text \<open>
  C9, the code at the failing input: with \<open>-y\<close> the session still asks for the branch
  to merge, the target branch and the push; without an operator it fails at the first
  of them.
\<close>

theorem y_flag_still_prompts:
  "args_y flags_y \<and>
   fst (session (scripted git_healthy) flags_y (fresh [])) = Inl EOFError \<and>
   asked (trace (snd (session (scripted git_healthy) flags_y (fresh [])))) = [''Select branch to merge''] \<and>
   fst (session (scripted git_healthy) flags_y (fresh [[], [], []])) = Inr () \<and>
   asked (trace (snd (session (scripted git_healthy) flags_y (fresh [[], [], []])))) =
     [''Select branch to merge'', ''Target branch to merge into'', ''Push to origin?'']"
  by (simp add: model_defs script_defs session_defs)

end
